theory Spec2Isabelle
  imports Main
begin

section \<open>Outcomes of a check run\<close>

text \<open>
  A check either returns its pair \<open>(exitCode, exitMessage)\<close> or the process stops:
  \<open>log.Fatal(msg)\<close> prints \<open>msg\<close> and exits, and an index beyond the end of a slice
  (\<open>parameters[i]\<close>, \<open>xs[1:]\<close> on an empty slice) or a method call through a nil
  pointer is a runtime panic. All three are the left summand of the result type,
  so every early stop of the source is a branch of the model.
\<close>

datatype failure = Fatal string | IndexOutOfRange | NilDereference

type_synonym 'a result = "failure + 'a"

type_synonym check_result = "int \<times> string"

definition and_then :: "'a result \<Rightarrow> ('a \<Rightarrow> 'b result) \<Rightarrow> 'b result" where
  "and_then m f = (case m of Inl e \<Rightarrow> Inl e | Inr x \<Rightarrow> f x)"

text \<open>\<open>parameters[i]\<close>: Go panics when \<open>i\<close> is not below the length.\<close>

definition index :: "'a list \<Rightarrow> nat \<Rightarrow> 'a result" where
  "index xs i = (if i < length xs then Inr (xs ! i) else Inl IndexOutOfRange)"

section \<open>The host as the checks see it\<close>

text \<open>
  \<open>exec.Cmd.CombinedOutput\<close> gives the combined output and an error (here its text,
  \<open>None\<close> for \<open>nil\<close>).
\<close>

record cmd_output =
  Out :: string
  Err :: "string option"

text \<open>\<open>os/user.User\<close>: the five string fields that \<open>reflect\<close> can find by name.\<close>

record User =
  User_Uid :: string
  User_Gid :: string
  User_Username :: string
  User_Name :: string
  User_HomeDir :: string

text \<open>
  One address of an interface, as the two renderings the source takes of it:
  \<open>ip.To4().String()\<close> and \<open>ip.To16().String()\<close>.
\<close>

record Addr =
  To4_String :: string
  To16_String :: string

text \<open>
  \<open>net.Interface\<close>: its name, whether \<open>Flags & net.FlagUp\<close> is non-zero, and what
  \<open>Addrs()\<close> returns (\<open>Inl\<close> the error text).
\<close>

record Interface_rec =
  Interface_Name :: string
  Interface_FlagUp :: bool
  Interface_Addrs :: "string + Addr list"

text \<open>
  Everything a check reads from outside: files by path (\<open>None\<close>: unreadable),
  commands by argument vector, the user database, the interfaces, name
  resolution, dialling (\<open>True\<close> when the dial returns no error) and the standard
  library's \<open>time.ParseDuration\<close> (nanoseconds, \<open>None\<close> for a parse error). Nothing is written back, so one value
  of this record stands for the host during a whole check.
\<close>

record host =
  files :: "string \<Rightarrow> string option"
  commands :: "string list \<Rightarrow> cmd_output"
  LookupId :: "string \<Rightarrow> User option"
  Lookup :: "string \<Rightarrow> User option"
  Interfaces :: "string + Interface_rec list"
  LookupHost :: "string \<Rightarrow> bool"
  ResolveTCPAddr :: "string \<Rightarrow> string option"
  ResolveUDPAddr :: "string \<Rightarrow> string option"
  DialTCP :: "string \<Rightarrow> bool"
  DialUDP :: "string \<Rightarrow> bool"
  DialTimeout :: "string \<Rightarrow> string \<Rightarrow> int \<Rightarrow> bool"
  ParseDuration :: "string \<Rightarrow> int option"

section \<open>Standard library functions used by the checks\<close>

text \<open>\<open>strings.Contains(s, sub)\<close>.\<close>

fun Contains :: "string \<Rightarrow> string \<Rightarrow> bool" where
  "Contains [] sub = (sub = [])"
| "Contains (c # cs) sub = (take (length sub) (c # cs) = sub \<or> Contains cs sub)"

text \<open>
  \<open>strconv.ParseUint(s, base, bitSize)\<close> and \<open>strconv.ParseInt(s, base, bitSize)\<close>
  for an explicit base (no underscores, no prefix). The callers only test
  \<open>err != nil\<close>, so a syntax error and a range error are both \<open>None\<close>.
\<close>

definition digitVal :: "char \<Rightarrow> nat option" where
  "digitVal c =
     (let b = (of_char c :: nat) in
      if 48 \<le> b \<and> b \<le> 57 then Some (b - 48)
      else if 97 \<le> b \<and> b \<le> 122 then Some (b - 97 + 10)
      else if 65 \<le> b \<and> b \<le> 90 then Some (b - 65 + 10)
      else None)"

fun ParseUint_loop :: "nat \<Rightarrow> nat \<Rightarrow> nat \<Rightarrow> string \<Rightarrow> nat option" where
  "ParseUint_loop base maxVal n [] = Some n"
| "ParseUint_loop base maxVal n (c # cs) =
     (case digitVal c of
        None \<Rightarrow> None
      | Some d \<Rightarrow>
          if base \<le> d then None
          else if maxVal < n * base + d then None
          else ParseUint_loop base maxVal (n * base + d) cs)"

definition ParseUint :: "string \<Rightarrow> nat \<Rightarrow> nat \<Rightarrow> nat option" where
  "ParseUint s base bitSize =
     (if s = [] then None else ParseUint_loop base (2 ^ bitSize - 1) 0 s)"

definition ParseInt :: "string \<Rightarrow> nat \<Rightarrow> nat \<Rightarrow> int option" where
  "ParseInt s base bitSize =
     (if s = [] then None
      else
        let neg = (hd s = CHR ''-'');
            s' = (if hd s = CHR ''+'' \<or> hd s = CHR ''-'' then tl s else s)
        in case ParseUint s' base bitSize of
             None \<Rightarrow> None
           | Some un \<Rightarrow>
               if \<not> neg \<and> 2 ^ (bitSize - 1) \<le> un then None
               else if neg \<and> 2 ^ (bitSize - 1) < un then None
               else Some (if neg then - int un else int un))"

text \<open>\<open>fmt.Sprint\<close> of an \<open>int\<close>: decimal digits, with a minus sign below zero.\<close>

fun digits :: "nat \<Rightarrow> string" where
  "digits n =
     (if n < 10 then [''0123456789'' ! n]
      else digits (n div 10) @ [''0123456789'' ! (n mod 10)])"

definition Sprint :: "int \<Rightarrow> string" where
  "Sprint i = (if i < 0 then CHR ''-'' # digits (nat (- i)) else digits (nat i))"

text \<open>
  \<open>regexp.Split(s, -1)\<close> for a regular expression that is one literal character
  (\<open>","\<close> in \<open>getGroups\<close>): a cut at every occurrence, empty pieces kept, and one
  empty piece for the empty string.
\<close>

fun Split :: "char \<Rightarrow> string \<Rightarrow> string list" where
  "Split d [] = [[]]"
| "Split d (c # cs) =
     (if c = d then [] # Split d cs
      else (case Split d cs of [] \<Rightarrow> [[c]] | f # fs \<Rightarrow> (c # f) # fs))"

text \<open>
  \<open>regexp.MustCompile(":([0-9A-F]{4})").FindString(address)\<close>: the leftmost colon
  that four characters of \<open>0-9A-F\<close> follow, with those four characters; the empty
  string when there is none.
\<close>

definition isHexUpper :: "char \<Rightarrow> bool" where
  "isHexUpper c = (c \<in> set ''0123456789ABCDEF'')"

fun portRe_FindString :: "string \<Rightarrow> string" where
  "portRe_FindString [] = []"
| "portRe_FindString (c # cs) =
     (if c = CHR '':'' \<and> 4 \<le> length cs \<and> list_all isHexUpper (take 4 cs)
      then c # take 4 cs
      else portRe_FindString cs)"

section \<open>Helpers of the repository that the checks call\<close>

text \<open>
  Modelled from the spec: \<open>strIn\<close>, the membership test every check uses
  (section 2: "the check tests membership/equality"); its source file is not
  among the sources.
\<close>

definition strIn :: "string \<Rightarrow> string list \<Rightarrow> bool" where
  "strIn s xs = (s \<in> set xs)"

text \<open>
  Modelled from the spec: \<open>genericError\<close>, the Diagnostic Formatter of section 4.4,
  whose source file is not among the sources. It returns exit code 1 and the
  message \<open><label>\n\tWanted: <wanted>\n\tFound: <found, comma-joined>\<close>; an empty
  \<open>found\<close> is rendered as an explicit marker.
\<close>

fun comma_joined :: "string list \<Rightarrow> string" where
  "comma_joined [] = []"
| "comma_joined [x] = x"
| "comma_joined (x # y # ys) = x @ '', '' @ comma_joined (y # ys)"

definition render_found :: "string list \<Rightarrow> string" where
  "render_found found = (if found = [] then ''[]'' else comma_joined found)"

definition genericError :: "string \<Rightarrow> string \<Rightarrow> string list \<Rightarrow> check_result" where
  "genericError label wanted found =
     (1, label @ [CHR 0x0A, CHR 0x09] @ ''Wanted: '' @ wanted @
         [CHR 0x0A, CHR 0x09] @ ''Found: '' @ render_found found)"

text \<open>
  Modelled from the spec: \<open>parseMyInt\<close>, the "strict integer parse that fails
  fatally on malformed input" of section 4.5; its source file is not among the
  sources.
\<close>

definition parseMyInt :: "string \<Rightarrow> int result" where
  "parseMyInt s =
     (case ParseInt s 10 64 of
        None \<Rightarrow> Inl (Fatal (''Could not parse int: '' @ s))
      | Some n \<Rightarrow> Inr n)"

text \<open>
  Modelled from the spec: the Command/File Output Adapter of section 4.3, whose
  source file is not among the sources. \<open>fileToString\<close> fails fatally when the file
  cannot be read; \<open>commandOutput\<close> fails fatally when the command fails with the
  permission-denied signature in its combined output, or for any other reason.
\<close>

definition fileToString :: "host \<Rightarrow> string \<Rightarrow> string result" where
  "fileToString h path =
     (case files h path of
        None \<Rightarrow> Inl (Fatal (''Could not read file: '' @ path))
      | Some text \<Rightarrow> Inr text)"

definition commandOutput :: "host \<Rightarrow> string list \<Rightarrow> string result" where
  "commandOutput h cmd =
     (case Err (commands h cmd) of
        None \<Rightarrow> Inr (Out (commands h cmd))
      | Some e \<Rightarrow>
          if Contains (Out (commands h cmd)) ''permission denied''
          then Inl (Fatal (''Permission denied when running: '' @ comma_joined cmd))
          else Inl (Fatal (''Error while running: '' @ comma_joined cmd @ [CHR 0x0A, CHR 0x09] @ e)))"

text \<open>
  Modelled from the spec: the Row/Column Tokenizer of section 4.1, whose source
  file is not among the sources. Whitespace is the class \<open>\s\<close> of Go's regular
  expressions. Under the exact-delimiter policy (\<open>separateString\<close>, with the two
  one-character expressions \<open>getGroups\<close> passes) rows and columns are cut
  literally and empty fields are kept. Under the whitespace policies a row is
  cut at every maximal run of at least \<open>k\<close> whitespace characters: \<open>k = 2\<close> for
  \<open>stringToSliceMultispace\<close> (the run-of-whitespace policy), \<open>k = 1\<close> for
  \<open>stringToSlice\<close> (the single-whitespace policy); a shorter run stays inside its
  field. Rows are cut at newlines and the empty text is the empty table.
\<close>

definition is_space :: "char \<Rightarrow> bool" where
  "is_space c = (c \<in> set [CHR '' '', CHR 0x09, CHR 0x0A, CHR 0x0C, CHR 0x0D])"

function split_runs :: "nat \<Rightarrow> string \<Rightarrow> string list" where
  "split_runs k [] = [[]]"
| "split_runs k (c # cs) =
     (if is_space c then
        (if k \<le> length (takeWhile is_space (c # cs))
         then [] # split_runs k (dropWhile is_space cs)
         else (case split_runs k (dropWhile is_space cs) of
                 [] \<Rightarrow> [takeWhile is_space (c # cs)]
               | f # fs \<Rightarrow> (takeWhile is_space (c # cs) @ f) # fs))
      else (case split_runs k cs of [] \<Rightarrow> [[c]] | f # fs \<Rightarrow> (c # f) # fs))"
  by pat_completeness auto
termination
  by (relation "measure (\<lambda>(k, s). length s)")
     (auto simp: length_dropWhile_le less_Suc_eq_le)

definition separateString :: "char \<Rightarrow> char \<Rightarrow> string \<Rightarrow> string list list" where
  "separateString rowSep colSep str =
     (if str = [] then [] else map (Split colSep) (Split rowSep str))"

definition stringToSlice :: "string \<Rightarrow> string list list" where
  "stringToSlice str =
     (if str = [] then [] else map (split_runs 1) (Split (CHR 0x0A) str))"

definition stringToSliceMultispace :: "string \<Rightarrow> string list list" where
  "stringToSliceMultispace str =
     (if str = [] then [] else map (split_runs 2) (Split (CHR 0x0A) str))"

text \<open>
  Modelled from the spec: the Column Extractor of section 4.2, whose source file
  is not among the sources. With \<open>skipHeader\<close> the first row is left out
  unconditionally; a row too short for the index contributes no value; order and
  duplicates are kept. \<open>getColumnNoHeader\<close> is the extractor with \<open>skipHeader\<close>
  set, and \<open>commandColumnNoHeader\<close> takes the column from the output of a
  command, read through the adapter and tokenized at whitespace.
\<close>

definition column :: "string list list \<Rightarrow> nat \<Rightarrow> bool \<Rightarrow> string list" where
  "column table i skipHeader =
     concat (map (\<lambda>row. if i < length row then [row ! i] else [])
                 (if skipHeader then tl table else table))"

definition getColumnNoHeader :: "nat \<Rightarrow> string list list \<Rightarrow> string list" where
  "getColumnNoHeader col slice = column slice col True"

definition commandColumnNoHeader :: "host \<Rightarrow> nat \<Rightarrow> string list \<Rightarrow> string list result" where
  "commandColumnNoHeader h col cmd =
     and_then (commandOutput h cmd) (\<lambda>out. Inr (getColumnNoHeader col (stringToSlice out)))"

section \<open>users-and-groups.go\<close>

text \<open>
  \<open>Group\<close>: an entry of \<open>/etc/group\<close>. \<open>Id\<close> is a Go \<open>int\<close>, taken as 64 bits wide, so
  that \<open>int(gid)\<close> keeps the parsed value.
\<close>

record Group =
  Group_Name :: string
  Group_Id :: int
  Group_Users :: "string list"

text \<open>
  The loop of \<open>getGroups\<close> over the tokenized lines: a line of more than three
  fields becomes a group, a shorter one is passed over, and the first line of
  more than three fields whose third field is not an integer stops the run.
\<close>

fun getGroups_loop :: "string list list \<Rightarrow> Group list result" where
  "getGroups_loop [] = Inr []"
| "getGroups_loop (line # lines) =
     (if 3 < length line then
        (case ParseInt (line ! 2) 10 64 of
           None \<Rightarrow> Inl (Fatal (''Could not parse ID for group: '' @ line ! 0))
         | Some gid \<Rightarrow>
             and_then (getGroups_loop lines)
               (\<lambda>groups. Inr (\<lparr>Group_Name = line ! 0, Group_Id = gid,
                                Group_Users = Split (CHR '','') (line ! 3)\<rparr> # groups)))
      else getGroups_loop lines)"

definition getGroups :: "host \<Rightarrow> Group list result" where
  "getGroups h =
     and_then (fileToString h ''/etc/group'')
       (\<lambda>data. getGroups_loop (separateString (CHR 0x0A) (CHR '':'') data))"

definition groupNotFound :: "host \<Rightarrow> string \<Rightarrow> check_result result" where
  "groupNotFound h name =
     and_then (getGroups h)
       (\<lambda>groups. Inr (genericError ''Group not found'' name (map Group_Name groups)))"

definition GroupExists :: "host \<Rightarrow> string list \<Rightarrow> check_result result" where
  "GroupExists h parameters =
     and_then (index parameters 0) (\<lambda>name.
     and_then (getGroups h) (\<lambda>groups.
       if list_ex (\<lambda>group. Group_Name group = name) groups then Inr (0, [])
       else groupNotFound h name))"

fun UserInGroup_loop :: "host \<Rightarrow> string \<Rightarrow> string \<Rightarrow> Group list \<Rightarrow> check_result result" where
  "UserInGroup_loop h user grp [] = groupNotFound h grp"
| "UserInGroup_loop h user grp (g # gs) =
     (if Group_Name g = grp then
        (if strIn user (Group_Users g) then Inr (0, [])
         else Inr (genericError ''User not found in group'' user (Group_Users g)))
      else UserInGroup_loop h user grp gs)"

text \<open>
  Both \<open>user\<close> and \<open>group\<close> (here \<open>grp\<close>) are read from \<open>parameters[0]\<close>, as in
  the source.
\<close>

definition UserInGroup :: "host \<Rightarrow> string list \<Rightarrow> check_result result" where
  "UserInGroup h parameters =
     and_then (index parameters 0) (\<lambda>user.
     and_then (index parameters 0) (\<lambda>grp.
     and_then (getGroups h) (\<lambda>groups.
       UserInGroup_loop h user grp groups)))"

fun GroupId_loop :: "host \<Rightarrow> string \<Rightarrow> int \<Rightarrow> Group list \<Rightarrow> check_result result" where
  "GroupId_loop h name ident [] = groupNotFound h name"
| "GroupId_loop h name ident (g # gs) =
     (if Group_Name g = name then
        (if Group_Id g = ident then Inr (0, [])
         else Inr (genericError ''Group does not have expected ID'' (Sprint ident)
                     [Sprint (Group_Id g)]))
      else GroupId_loop h name ident gs)"

definition GroupId :: "host \<Rightarrow> string list \<Rightarrow> check_result result" where
  "GroupId h parameters =
     and_then (index parameters 0) (\<lambda>name.
     and_then (index parameters 1) (\<lambda>p1.
     and_then (parseMyInt p1) (\<lambda>ident.
     and_then (getGroups h) (\<lambda>groups.
       GroupId_loop h name ident groups))))"

text \<open>\<open>lookupUser\<close>: by id first, then by name; \<open>None\<close> is the returned error.\<close>

definition lookupUser :: "host \<Rightarrow> string \<Rightarrow> User option" where
  "lookupUser h usernameOrUid =
     (case LookupId h usernameOrUid of
        Some usr \<Rightarrow> Some usr
      | None \<Rightarrow> Lookup h usernameOrUid)"

text \<open>
  \<open>reflect.ValueOf(*user).FieldByName(fieldName)\<close>: the field's string, or \<open>None\<close>
  when the struct has no field of that name (the value's kind is then not
  \<open>reflect.String\<close>).
\<close>

definition FieldByName :: "User \<Rightarrow> string \<Rightarrow> string option" where
  "FieldByName u fieldName =
     (if fieldName = ''Uid'' then Some (User_Uid u)
      else if fieldName = ''Gid'' then Some (User_Gid u)
      else if fieldName = ''Username'' then Some (User_Username u)
      else if fieldName = ''Name'' then Some (User_Name u)
      else if fieldName = ''HomeDir'' then Some (User_HomeDir u)
      else None)"

text \<open>
  \<open>userHasField\<close> returns \<open>(bool, error)\<close>: \<open>Inr None\<close> is the pair with an error,
  \<open>Inr (Some b)\<close> the pair \<open>(b, nil)\<close>.
\<close>

definition userHasField :: "host \<Rightarrow> string \<Rightarrow> string \<Rightarrow> string \<Rightarrow> bool option result" where
  "userHasField h usernameOrUid fieldName givenValue =
     (case lookupUser h usernameOrUid of
        None \<Rightarrow> Inr None
      | Some user \<Rightarrow>
          (case FieldByName user fieldName of
             None \<Rightarrow>
               Inl (Fatal (''Failure during reflection: Field is not a string:'' @
                           [CHR 0x0A, CHR 0x09] @ ''Field name: '' @ fieldName @
                           [CHR 0x0A, CHR 0x09] @ ''Field Kind: invalid'' @
                           [CHR 0x0A, CHR 0x09] @ ''User: '' @ User_Username user))
           | Some actualValue \<Rightarrow> Inr (Some (actualValue = givenValue))))"

definition genericUserField :: "host \<Rightarrow> string \<Rightarrow> string \<Rightarrow> string \<Rightarrow> check_result result" where
  "genericUserField h usernameOrUid fieldName fieldValue =
     and_then (userHasField h usernameOrUid fieldName fieldValue) (\<lambda>r.
       case r of
         None \<Rightarrow> Inr (1, ''User does not exist: '' @ usernameOrUid)
       | Some boolean \<Rightarrow>
           if boolean then Inr (0, [])
           else Inr (1, ''User does not have expected '' @ fieldName @ '': '' @
                        [CHR 0x0A] @ ''User: '' @ usernameOrUid @
                        [CHR 0x0A] @ ''Given: '' @ fieldValue))"

definition UserExists :: "host \<Rightarrow> string list \<Rightarrow> check_result result" where
  "UserExists h parameters =
     and_then (index parameters 0) (\<lambda>usernameOrUid.
       case lookupUser h usernameOrUid of
         Some usr \<Rightarrow> Inr (0, [])
       | None \<Rightarrow> Inr (1, ''User does not exist: '' @ usernameOrUid))"

definition UserHasUID :: "host \<Rightarrow> string list \<Rightarrow> check_result result" where
  "UserHasUID h parameters =
     and_then (index parameters 0) (\<lambda>p0.
     and_then (index parameters 1) (\<lambda>p1.
       genericUserField h p0 ''Uid'' p1))"

definition UserHasGID :: "host \<Rightarrow> string list \<Rightarrow> check_result result" where
  "UserHasGID h parameters =
     and_then (index parameters 0) (\<lambda>p0.
     and_then (index parameters 1) (\<lambda>p1.
       genericUserField h p0 ''Gid'' p1))"

definition UserHasUsername :: "host \<Rightarrow> string list \<Rightarrow> check_result result" where
  "UserHasUsername h parameters =
     and_then (index parameters 0) (\<lambda>p0.
     and_then (index parameters 1) (\<lambda>p1.
       genericUserField h p0 ''Username'' p1))"

definition UserHasName :: "host \<Rightarrow> string list \<Rightarrow> check_result result" where
  "UserHasName h parameters =
     and_then (index parameters 0) (\<lambda>p0.
     and_then (index parameters 1) (\<lambda>p1.
       genericUserField h p0 ''Name'' p1))"

definition UserHasHomeDir :: "host \<Rightarrow> string list \<Rightarrow> check_result result" where
  "UserHasHomeDir h parameters =
     and_then (index parameters 0) (\<lambda>p0.
     and_then (index parameters 1) (\<lambda>p1.
       genericUserField h p0 ''HomeDir'' p1))"

section \<open>The Docker checks\<close>

definition DockerImage :: "host \<Rightarrow> string list \<Rightarrow> check_result result" where
  "DockerImage h parameters =
     and_then (index parameters 0) (\<lambda>name.
     and_then (commandColumnNoHeader h 0 [''docker'', ''images'']) (\<lambda>images.
       if strIn name images then Inr (0, [])
       else Inr (genericError ''Docker image was not found'' name images)))"

text \<open>
  The loop of \<open>getRunningContainers\<close>: the \<open>i\<close>-th status is paired with the \<open>i\<close>-th
  name, both counted within their own extracted column.
\<close>

fun getRunningContainers_loop :: "string list \<Rightarrow> nat \<Rightarrow> string list \<Rightarrow> string list" where
  "getRunningContainers_loop names i [] = []"
| "getRunningContainers_loop names i (status # statuses) =
     (if Contains status ''Up'' \<and> i < length names
      then names ! i # getRunningContainers_loop names (Suc i) statuses
      else getRunningContainers_loop names (Suc i) statuses)"

definition getRunningContainers :: "host \<Rightarrow> string list result" where
  "getRunningContainers h =
     (let c = commands h [''docker'', ''ps'', ''-a''] in
      case Err c of
        Some e \<Rightarrow>
          if Contains (Out c) ''permission denied''
          then Inl (Fatal ''Permission denied when running: docker ps -a'')
          else Inl (Fatal (''Error while running `docker ps -a`'' @ [CHR 0x0A, CHR 0x09] @ e))
      | None \<Rightarrow>
          let lines = stringToSliceMultispace (Out c) in
          if length lines < 1 then Inr []
          else Inr (getRunningContainers_loop (getColumnNoHeader 1 lines) 0
                      (getColumnNoHeader 4 lines)))"

definition DockerRunning :: "host \<Rightarrow> string list \<Rightarrow> check_result result" where
  "DockerRunning h parameters =
     and_then (index parameters 0) (\<lambda>name.
     and_then (getRunningContainers h) (\<lambda>running.
       if strIn name running then Inr (0, [])
       else Inr (genericError ''Docker container not runnning'' name running)))"

text \<open>The table that \<open>getRunningContainers\<close> makes of the output of \<open>docker ps -a\<close>.\<close>

abbreviation docker_ps_rows :: "host \<Rightarrow> string list list" where
  "docker_ps_rows h \<equiv> stringToSliceMultispace (Out (commands h [''docker'', ''ps'', ''-a'']))"

section \<open>The network checks\<close>

fun getHexPorts_loop :: "string list \<Rightarrow> string list" where
  "getHexPorts_loop [] = []"
| "getHexPorts_loop (address # addresses) =
     (if portRe_FindString address \<noteq> []
      then tl (portRe_FindString address) # getHexPorts_loop addresses
      else getHexPorts_loop addresses)"

definition getHexPorts :: "host \<Rightarrow> string list result" where
  "getHexPorts h =
     and_then (fileToString h ''/proc/net/tcp'')
       (\<lambda>data. Inr (getHexPorts_loop (getColumnNoHeader 1 (stringToSlice data))))"

text \<open>
  \<open>strHexToDecimal\<close>; the library's error text that the source appends to the
  fatal message is left out.
\<close>

definition strHexToDecimal :: "string \<Rightarrow> int result" where
  "strHexToDecimal hex =
     (case ParseInt hex 16 64 of
        None \<Rightarrow> Inl (Fatal (''Couldn't parse hex number '' @ hex))
      | Some portInt \<Rightarrow> Inr portInt)"

fun getOpenPorts_loop :: "string list \<Rightarrow> int list result" where
  "getOpenPorts_loop [] = Inr []"
| "getOpenPorts_loop (port # ports) =
     and_then (strHexToDecimal port) (\<lambda>p.
     and_then (getOpenPorts_loop ports) (\<lambda>ps. Inr (p # ps)))"

definition getOpenPorts :: "host \<Rightarrow> int list result" where
  "getOpenPorts h = and_then (getHexPorts h) getOpenPorts_loop"

definition Port :: "host \<Rightarrow> string list \<Rightarrow> check_result result" where
  "Port h parameters =
     and_then (index parameters 0) (\<lambda>p0.
     and_then (parseMyInt p0) (\<lambda>port.
     and_then (getOpenPorts h) (\<lambda>opn.
       if list_ex (\<lambda>p. p = port) opn then Inr (0, [])
       else Inr (genericError ''Port not open'' (Sprint port) (map Sprint opn)))))"

definition getInterfaces :: "host \<Rightarrow> Interface_rec list result" where
  "getInterfaces h =
     (case Interfaces h of
        Inl e \<Rightarrow> Inl (Fatal (''Could not read network interfaces:'' @ [CHR 0x0A, CHR 0x09] @ e))
      | Inr ifaces \<Rightarrow> Inr ifaces)"

definition Interface :: "host \<Rightarrow> string list \<Rightarrow> check_result result" where
  "Interface h parameters =
     and_then (index parameters 0) (\<lambda>name.
     and_then (getInterfaces h) (\<lambda>ifaces.
       let interfaces = map Interface_Name ifaces in
       if list_ex (\<lambda>iface. iface = name) interfaces then Inr (0, [])
       else Inr (genericError ''Interface does not exist'' name interfaces)))"

definition Up :: "host \<Rightarrow> string list \<Rightarrow> check_result result" where
  "Up h parameters =
     and_then (index parameters 0) (\<lambda>name.
     and_then (getInterfaces h) (\<lambda>ifaces.
       let upInterfaces = map Interface_Name (filter Interface_FlagUp ifaces) in
       if strIn name upInterfaces then Inr (0, [])
       else Inr (genericError ''Interface is not up'' name upInterfaces)))"

fun getInterfaceIPs_loop :: "string \<Rightarrow> int \<Rightarrow> Interface_rec list \<Rightarrow> string list result" where
  "getInterfaceIPs_loop name version [] = Inr []"
| "getInterfaceIPs_loop name version (iface # ifaces) =
     (if Interface_Name iface = name then
        (case Interface_Addrs iface of
           Inl e \<Rightarrow>
             Inl (Fatal (''Could not get network addressed from interface: '' @
                         [CHR 0x0A, CHR 0x09] @ ''Interface name: '' @ Interface_Name iface @
                         [CHR 0x0A, CHR 0x09] @ ''Error: '' @ e))
         | Inr addresses \<Rightarrow>
             Inr (concat (map (\<lambda>addr. if version = 4 then [To4_String addr]
                                      else if version = 6 then [To16_String addr]
                                      else []) addresses)))
      else getInterfaceIPs_loop name version ifaces)"

definition getInterfaceIPs :: "host \<Rightarrow> string \<Rightarrow> int \<Rightarrow> string list result" where
  "getInterfaceIPs h name version =
     (if version \<noteq> 4 \<and> version \<noteq> 6
      then Inl (Fatal (''Misconfigured JSON: Unsupported IP version: '' @ Sprint version))
      else and_then (getInterfaces h) (getInterfaceIPs_loop name version))"

definition getIPWorker :: "host \<Rightarrow> string \<Rightarrow> string \<Rightarrow> int \<Rightarrow> check_result result" where
  "getIPWorker h name address version =
     and_then (getInterfaceIPs h name version) (\<lambda>ips.
       if strIn address ips then Inr (0, [])
       else Inr (genericError ''Interface does not have IP'' address ips))"

definition Ip4 :: "host \<Rightarrow> string list \<Rightarrow> check_result result" where
  "Ip4 h parameters =
     and_then (index parameters 0) (\<lambda>p0.
     and_then (index parameters 1) (\<lambda>p1.
       getIPWorker h p0 p1 4))"

definition Ip6 :: "host \<Rightarrow> string list \<Rightarrow> check_result result" where
  "Ip6 h parameters =
     and_then (index parameters 0) (\<lambda>p0.
     and_then (index parameters 1) (\<lambda>p1.
       getIPWorker h p0 p1 6))"

text \<open>
  \<open>routingTableColumn\<close>: the column of \<open>route -n\<close> without its header, then \<open>[1:]\<close>,
  which panics on the empty slice.
\<close>

definition routingTableColumn :: "host \<Rightarrow> nat \<Rightarrow> string list result" where
  "routingTableColumn h col =
     and_then (commandColumnNoHeader h col [''route'', ''-n'']) (\<lambda>xs.
       if xs = [] then Inl IndexOutOfRange else Inr (tl xs))"

fun getGatewayAddress_loop :: "string list \<Rightarrow> string" where
  "getGatewayAddress_loop [] = ''0.0.0.0''"
| "getGatewayAddress_loop (ip # ips) =
     (if ip \<noteq> ''0.0.0.0'' then ip else getGatewayAddress_loop ips)"

definition Gateway :: "host \<Rightarrow> string list \<Rightarrow> check_result result" where
  "Gateway h parameters =
     and_then (index parameters 0) (\<lambda>address.
     and_then (routingTableColumn h 1) (\<lambda>ips.
       let gatewayIP = getGatewayAddress_loop ips in
       if address = gatewayIP then Inr (0, [])
       else Inr (genericError ''Gateway does not have address'' address [gatewayIP])))"

text \<open>
  The loop of \<open>getGatewayInterface\<close> over \<open>ips\<close> with its index: at the first entry
  that is not \<open>0.0.0.0\<close> it stops with \<open>log.Fatal()\<close> when \<open>len(names) < i\<close> and
  returns \<open>names[i]\<close> otherwise.
\<close>

fun getGatewayInterface_loop :: "string list \<Rightarrow> nat \<Rightarrow> string list \<Rightarrow> string result" where
  "getGatewayInterface_loop names i [] = Inr []"
| "getGatewayInterface_loop names i (ip # ips) =
     (if ip \<noteq> ''0.0.0.0'' then
        (if length names < i then Inl (Fatal []) else index names i)
      else getGatewayInterface_loop names (Suc i) ips)"

text \<open>Both \<open>ips\<close> and \<open>names\<close> are \<open>routingTableColumn(1)\<close>, as in the source.\<close>

definition getGatewayInterface :: "host \<Rightarrow> string result" where
  "getGatewayInterface h =
     and_then (routingTableColumn h 1) (\<lambda>ips.
     and_then (routingTableColumn h 1) (\<lambda>names.
       getGatewayInterface_loop names 0 ips))"

definition GatewayInterface :: "host \<Rightarrow> string list \<Rightarrow> check_result result" where
  "GatewayInterface h parameters =
     and_then (index parameters 0) (\<lambda>name.
     and_then (getGatewayInterface h) (\<lambda>iface.
       if name = iface then Inr (0, [])
       else Inr (genericError ''Default gateway does not operate on interface'' name [iface])))"

definition Host :: "host \<Rightarrow> string list \<Rightarrow> check_result result" where
  "Host h parameters =
     and_then (index parameters 0) (\<lambda>hst.
       if LookupHost h hst then Inr (0, [])
       else Inr (1, ''Host cannot be resolved: '' @ hst))"

text \<open>
  \<open>canConnect\<close>. Inside each case of the switch, \<open>tcpaddr, err := ...\<close> declares an
  \<open>err\<close> of the case's own block, and the dial without timeout assigns to that
  one; the function's \<open>err\<close>, which decides the result, is only assigned by
  \<open>net.DialTimeout\<close>, which runs when the timeout is positive. Without a timeout
  the result is therefore \<open>true\<close> when the dial succeeds; when it fails, the nil
  \<open>*net.TCPConn\<close> (or \<open>*net.UDPConn\<close>) it returns is stored in the interface
  variable \<open>conn\<close>, which then is not \<open>nil\<close>, and the deferred \<open>conn.Close()\<close> panics.
  With a timeout, a failed \<open>net.DialTimeout\<close> leaves \<open>conn\<close> nil and the result is
  \<open>false\<close>.
\<close>

definition canConnect :: "host \<Rightarrow> string \<Rightarrow> string \<Rightarrow> int \<Rightarrow> bool result" where
  "canConnect h hst protocol timeout =
     (let after_switch = (\<lambda>timeoutNetwork timeoutAddress dialed.
            if 0 < timeout then Inr (DialTimeout h timeoutNetwork timeoutAddress timeout)
            else if dialed then Inr True
            else Inl NilDereference)
      in
      if protocol = ''TCP'' then
        (case ResolveTCPAddr h hst of
           None \<Rightarrow> Inl (Fatal (''Could not parse '' @ protocol @ '' address: '' @ hst))
         | Some tcpaddr \<Rightarrow> after_switch ''tcp'' tcpaddr (DialTCP h tcpaddr))
      else if protocol = ''UDP'' then
        (case ResolveUDPAddr h hst of
           None \<Rightarrow> Inl (Fatal (''Could not parse '' @ protocol @ '' address: '' @ hst))
         | Some udpaddr \<Rightarrow> after_switch ''udp'' udpaddr (DialUDP h udpaddr))
      else Inl (Fatal (''Unsupported protocol: '' @ protocol)))"

definition getConnectionWorker :: "host \<Rightarrow> string \<Rightarrow> string \<Rightarrow> string \<Rightarrow> check_result result" where
  "getConnectionWorker h hst protocol timeoutstr =
     (case ParseDuration h timeoutstr of
        None \<Rightarrow> Inl (Fatal (''Configuration error: Could not parse duration: '' @ timeoutstr))
      | Some dur \<Rightarrow>
          and_then (canConnect h hst protocol dur) (\<lambda>ok.
            if ok then Inr (0, [])
            else Inr (1, ''Could not connect over '' @ protocol @ '' to host: '' @ hst)))"

definition TCP :: "host \<Rightarrow> string list \<Rightarrow> check_result result" where
  "TCP h parameters =
     and_then (index parameters 0) (\<lambda>p0. getConnectionWorker h p0 ''TCP'' ''0ns'')"

definition UDP :: "host \<Rightarrow> string list \<Rightarrow> check_result result" where
  "UDP h parameters =
     and_then (index parameters 0) (\<lambda>p0. getConnectionWorker h p0 ''UDP'' ''0ns'')"

definition tcpTimeout :: "host \<Rightarrow> string list \<Rightarrow> check_result result" where
  "tcpTimeout h parameters =
     and_then (index parameters 0) (\<lambda>p0.
     and_then (index parameters 1) (\<lambda>p1.
       getConnectionWorker h p0 ''TCP'' p1))"

definition udpTimeout :: "host \<Rightarrow> string list \<Rightarrow> check_result result" where
  "udpTimeout h parameters =
     and_then (index parameters 0) (\<lambda>p0.
     and_then (index parameters 1) (\<lambda>p1.
       getConnectionWorker h p0 ''UDP'' p1))"

definition routingTableMatch :: "host \<Rightarrow> nat \<Rightarrow> string \<Rightarrow> check_result result" where
  "routingTableMatch h col str =
     and_then (routingTableColumn h col) (\<lambda>column.
       if strIn str column then Inr (0, [])
       else Inr (genericError ''Not found in routing table'' str column))"

definition RoutingTableDestination :: "host \<Rightarrow> string list \<Rightarrow> check_result result" where
  "RoutingTableDestination h parameters =
     and_then (index parameters 0) (\<lambda>p0. routingTableMatch h 0 p0)"

definition RoutingTableInterface :: "host \<Rightarrow> string list \<Rightarrow> check_result result" where
  "RoutingTableInterface h parameters =
     and_then (index parameters 0) (\<lambda>p0. routingTableMatch h 7 p0)"

definition RoutingTableGateway :: "host \<Rightarrow> string list \<Rightarrow> check_result result" where
  "RoutingTableGateway h parameters =
     and_then (index parameters 0) (\<lambda>p0. routingTableMatch h 1 p0)"

section \<open>The domain checks together\<close>

text \<open>The exported checks of the three source files.\<close>

definition domain_checks :: "(host \<Rightarrow> string list \<Rightarrow> check_result result) list" where
  "domain_checks =
     [GroupExists, UserInGroup, GroupId, UserExists, UserHasUID, UserHasGID,
      UserHasUsername, UserHasName, UserHasHomeDir, DockerImage, DockerRunning, Port,
      Interface, Up, Ip4, Ip6, Gateway, GatewayInterface, Host, TCP, UDP,
      RoutingTableDestination, RoutingTableInterface, RoutingTableGateway]"

text \<open>
  The invariant of a Check Result: exit code 0 with the empty message, or exit
  code 1 with a message that is not empty. A run that stops has no result.
\<close>

definition contract :: "check_result result \<Rightarrow> bool" where
  "contract r =
     (case r of
        Inl _ \<Rightarrow> True
      | Inr (exitCode, exitMessage) \<Rightarrow>
          (exitCode = 0 \<and> exitMessage = []) \<or> (exitCode = 1 \<and> exitMessage \<noteq> []))"

section \<open>Texts and hosts for stating the properties\<close>

text \<open>
  \<open>join d fields\<close> writes the fields with the delimiter \<open>d\<close> between them: the text
  of which \<open>fields\<close> are the original field values.
\<close>

fun join :: "char \<Rightarrow> string list \<Rightarrow> string" where
  "join d [] = []"
| "join d [f] = f"
| "join d (f # g # fs) = f @ d # join d (g # fs)"

text \<open>
  The value of a string of the digits \<open>0-9A-F\<close>, most significant digit first, as
  the spec reads a port ("port hex \<open>1F90\<close> = 8080 decimal"): what the conversion
  of \<open>strHexToDecimal\<close> is compared with.
\<close>

definition hex_digit :: "char \<Rightarrow> nat" where
  "hex_digit c = length (takeWhile (\<lambda>x. x \<noteq> c) ''0123456789ABCDEF'')"

definition hex_value :: "string \<Rightarrow> nat" where
  "hex_value s = foldl (\<lambda>n c. n * 16 + hex_digit c) 0 s"

text \<open>
  The local address column of a \<open>/proc/net/tcp\<close> text, and the entries of it in
  which the port expression finds a match.
\<close>

abbreviation local_addresses :: "string \<Rightarrow> string list" where
  "local_addresses data \<equiv> getColumnNoHeader 1 (stringToSlice data)"

abbreviation port_addresses :: "string \<Rightarrow> string list" where
  "port_addresses data \<equiv> filter (\<lambda>address. portRe_FindString address \<noteq> []) (local_addresses data)"

text \<open>
  Rows of fields that can be written as colon-delimited lines: every row has a
  field, and no field contains a colon or a newline.
\<close>

definition well_formed_rows :: "string list list \<Rightarrow> bool" where
  "well_formed_rows rows =
     (\<forall>row\<in>set rows. row \<noteq> [] \<and> (\<forall>f\<in>set row. CHR '':'' \<notin> set f \<and> CHR 0x0A \<notin> set f))"

text \<open>
  \<open>weave fields seps\<close> writes the fields of one row with the separators between
  them, the \<open>i\<close>-th separator after the \<open>i\<close>-th field. A field is \<open>single_spaced\<close>
  when it starts and ends with a character that is not whitespace and no two
  whitespace characters in it are adjacent; a separator is \<open>wide\<close> when it is two
  or more whitespace characters.
\<close>

fun weave :: "string list \<Rightarrow> string list \<Rightarrow> string" where
  "weave [] seps = []"
| "weave [f] seps = f"
| "weave (f # g # fs) [] = f"
| "weave (f # g # fs) (sep # seps) = f @ sep @ weave (g # fs) seps"

fun no_boundary :: "string \<Rightarrow> bool" where
  "no_boundary [] = True"
| "no_boundary [c] = (\<not> is_space c)"
| "no_boundary (c # d # cs) = ((is_space c \<longrightarrow> \<not> is_space d) \<and> no_boundary (d # cs))"

definition single_spaced :: "string \<Rightarrow> bool" where
  "single_spaced f = (f \<noteq> [] \<and> \<not> is_space (hd f) \<and> no_boundary f)"

definition wide :: "string \<Rightarrow> bool" where
  "wide sep = (2 \<le> length sep \<and> list_all is_space sep)"

text \<open>
  A host of which only the files and the command outputs matter: no users, no
  interfaces, nothing resolves, no dial succeeds, and only \<open>0ns\<close> is a duration.
\<close>

definition host_with :: "(string \<Rightarrow> string option) \<Rightarrow> (string list \<Rightarrow> cmd_output) \<Rightarrow> host" where
  "host_with fs cs =
     \<lparr>files = fs, commands = cs, LookupId = (\<lambda>_. None), Lookup = (\<lambda>_. None),
      Interfaces = Inr [], LookupHost = (\<lambda>_. False), ResolveTCPAddr = (\<lambda>_. None),
      ResolveUDPAddr = (\<lambda>_. None), DialTCP = (\<lambda>_. False), DialUDP = (\<lambda>_. False),
      DialTimeout = (\<lambda>_ _ _. False),
      ParseDuration = (\<lambda>s. if s = ''0ns'' then Some 0 else None)\<rparr>"

definition file_host :: "string \<Rightarrow> string \<Rightarrow> host" where
  "file_host path text =
     host_with (\<lambda>p. if p = path then Some text else None) (\<lambda>_. \<lparr>Out = [], Err = Some ''not found''\<rparr>)"

definition command_host :: "string list \<Rightarrow> cmd_output \<Rightarrow> host" where
  "command_host cmd res =
     host_with (\<lambda>_. None) (\<lambda>c. if c = cmd then res else \<lparr>Out = [], Err = Some ''not found''\<rparr>)"

section \<open>Evaluation\<close>

declare digits.simps [simp del]

lemmas evals = and_then_def index_def ParseInt_def ParseUint_def digitVal_def Sprint_def
  digits.simps isHexUpper_def strIn_def render_found_def genericError_def parseMyInt_def
  fileToString_def commandOutput_def is_space_def separateString_def stringToSlice_def
  stringToSliceMultispace_def column_def getColumnNoHeader_def commandColumnNoHeader_def
  host_with_def file_host_def command_host_def

section \<open>The exact-delimiter policy and \<open>getGroups\<close>\<close>

lemma Split_not_Nil: "Split d s \<noteq> []"
  by (induction s) (auto split: list.splits)

lemma Split_no_delim: "d \<notin> set f \<Longrightarrow> Split d f = [f]"
  by (induction f) auto

lemma Split_append_delim: "d \<notin> set f \<Longrightarrow> Split d (f @ d # rest) = f # Split d rest"
  by (induction f) auto

lemma Split_join: "fs \<noteq> [] \<Longrightarrow> \<forall>f\<in>set fs. d \<notin> set f \<Longrightarrow> Split d (join d fs) = fs"
  by (induction d fs rule: join.induct) (auto simp: Split_no_delim Split_append_delim)

lemma join_Nil_iff: "join d fs = [] \<longleftrightarrow> fs = [] \<or> fs = [[]]"
  by (induction d fs rule: join.induct) auto

lemma set_join: "set (join d fs) \<subseteq> insert d (\<Union>(set ` set fs))"
  by (induction d fs rule: join.induct) auto

lemma separateString_join:
  assumes "well_formed_rows rows" "join (CHR 0x0A) (map (join (CHR '':'')) rows) \<noteq> []"
  shows "separateString (CHR 0x0A) (CHR '':'') (join (CHR 0x0A) (map (join (CHR '':'')) rows)) = rows"
proof -
  have ne: "rows \<noteq> []" using assms(2) by auto
  have nl: "\<forall>l\<in>set (map (join (CHR '':'')) rows). CHR 0x0A \<notin> set l"
  proof
    fix l assume "l \<in> set (map (join (CHR '':'')) rows)"
    then obtain row where r: "row \<in> set rows" and l: "l = join (CHR '':'') row" by auto
    have "set l \<subseteq> insert (CHR '':'') (\<Union>(set ` set row))" unfolding l by (rule set_join)
    moreover have "CHR 0x0A \<notin> \<Union>(set ` set row)" using assms(1) r by (auto simp: well_formed_rows_def)
    ultimately show "CHR 0x0A \<notin> set l" by auto
  qed
  have rowsplit: "Split (CHR 0x0A) (join (CHR 0x0A) (map (join (CHR '':'')) rows)) = map (join (CHR '':'')) rows"
    using ne nl by (intro Split_join) auto
  have "map (Split (CHR '':'')) (map (join (CHR '':'')) rows) = rows"
    unfolding map_map
  proof (rule map_idI)
    fix row assume "row \<in> set rows"
    then show "(Split (CHR '':'') \<circ> join (CHR '':'')) row = row"
      using assms(1) by (auto simp: well_formed_rows_def intro!: Split_join)
  qed
  then show ?thesis using assms(2) rowsplit by (simp add: separateString_def)
qed

lemma getGroups_loop_short: "\<forall>row\<in>set rows. \<not> 3 < length row \<Longrightarrow> getGroups_loop rows = Inr []"
  by (induction rows) auto

lemma getGroups_loop_ok:
  "\<forall>row\<in>set rows. 3 < length row \<longrightarrow> ParseInt (row ! 2) 10 64 \<noteq> None \<Longrightarrow>
   \<exists>groups. getGroups_loop rows = Inr groups \<and>
     list_all2 (\<lambda>row g. Group_Name g = row ! 0 \<and> ParseInt (row ! 2) 10 64 = Some (Group_Id g) \<and>
                  Group_Users g = Split (CHR '','') (row ! 3))
       (filter (\<lambda>row. 3 < length row) rows) groups"
  by (induction rows) (auto simp: and_then_def)

lemma getGroups_loop_bad:
  "\<exists>row\<in>set rows. 3 < length row \<and> ParseInt (row ! 2) 10 64 = None \<Longrightarrow>
   \<exists>row\<in>set rows. getGroups_loop rows = Inl (Fatal (''Could not parse ID for group: '' @ row ! 0))"
proof (induction rows)
  case Nil
  then show ?case by simp
next
  case (Cons a rows)
  show ?case
  proof (cases "3 < length a \<and> ParseInt (a ! 2) 10 64 = None")
    case True
    then have "getGroups_loop (a # rows) = Inl (Fatal (''Could not parse ID for group: '' @ a ! 0))"
      by simp
    then show ?thesis by (metis list.set_intros(1))
  next
    case False
    then have "\<exists>row\<in>set rows. 3 < length row \<and> ParseInt (row ! 2) 10 64 = None"
      using Cons.prems by auto
    from Cons.IH[OF this] obtain row where r: "row \<in> set rows"
      and l: "getGroups_loop rows = Inl (Fatal (''Could not parse ID for group: '' @ row ! 0))"
      by blast
    have "getGroups_loop (a # rows) = getGroups_loop rows"
      using False l by (auto simp: and_then_def split: option.splits)
    then show ?thesis using r l by (metis list.set_intros(2))
  qed
qed

lemma getGroups_loop_text:
  assumes "well_formed_rows rows"
  shows "getGroups_loop (separateString (CHR 0x0A) (CHR '':'') (join (CHR 0x0A) (map (join (CHR '':'')) rows)))
         = getGroups_loop rows"
proof (cases "join (CHR 0x0A) (map (join (CHR '':'')) rows) = []")
  case False
  then show ?thesis using separateString_join[OF assms] by simp
next
  case True
  then have "map (join (CHR '':'')) rows = [] \<or> map (join (CHR '':'')) rows = [[]]"
    by (simp add: join_Nil_iff)
  then have "\<forall>row\<in>set rows. \<not> 3 < length row"
    by (auto simp: join_Nil_iff map_eq_Cons_conv)
  then have "getGroups_loop rows = Inr []" by (rule getGroups_loop_short)
  then show ?thesis using True by (simp add: separateString_def)
qed

text \<open>
  Claim C4. \<open>getGroups\<close> reads \<open>/etc/group\<close> under the exact-delimiter policy. When
  the file is the text of \<open>rows\<close> (newline between rows, colon between fields),
  the rows of fewer than four fields are passed over and every row of four or
  more fields gives, in order, the group whose name is field 0, whose id is the
  integer parsed from field 2 and whose users are field 3 cut at the commas; when
  some such row has a field 2 that is not an integer, the run stops instead.
\<close>

theorem getGroups_recovers_fields:
  assumes "files h ''/etc/group'' = Some (join (CHR 0x0A) (map (join (CHR '':'')) rows))"
    and "well_formed_rows rows"
  shows "if \<forall>row\<in>set rows. 3 < length row \<longrightarrow> ParseInt (row ! 2) 10 64 \<noteq> None
         then \<exists>groups. getGroups h = Inr groups \<and>
                list_all2 (\<lambda>row g. Group_Name g = row ! 0 \<and> ParseInt (row ! 2) 10 64 = Some (Group_Id g) \<and>
                             Group_Users g = Split (CHR '','') (row ! 3))
                  (filter (\<lambda>row. 3 < length row) rows) groups
         else \<exists>row\<in>set rows. getGroups h = Inl (Fatal (''Could not parse ID for group: '' @ row ! 0))"
proof -
  have g: "getGroups h = getGroups_loop rows"
    using assms getGroups_loop_text by (simp add: getGroups_def fileToString_def and_then_def)
  show ?thesis
  proof (cases "\<forall>row\<in>set rows. 3 < length row \<longrightarrow> ParseInt (row ! 2) 10 64 \<noteq> None")
    case True
    then show ?thesis using getGroups_loop_ok[OF True] g by simp
  next
    case False
    then have "\<exists>row\<in>set rows. 3 < length row \<and> ParseInt (row ! 2) 10 64 = None" by auto
    from getGroups_loop_bad[OF this] obtain row where "row \<in> set rows"
      "getGroups_loop rows = Inl (Fatal (''Could not parse ID for group: '' @ row ! 0))" by blast
    then have "\<exists>row\<in>set rows. getGroups h = Inl (Fatal (''Could not parse ID for group: '' @ row ! 0))"
      using g by metis
    then show ?thesis using False by (simp only: if_False)
  qed
qed

theorem getGroups_recovers_fields_witness:
  "join (CHR 0x0A) (map (join (CHR '':'')) [[''wheel'', ''x'', ''10'', ''alice,bob''], [''daemon'', ''x'']]) =
     ''wheel:x:10:alice,bob'' @ [CHR 0x0A] @ ''daemon:x'' \<and>
   getGroups (file_host ''/etc/group'' (''wheel:x:10:alice,bob'' @ [CHR 0x0A] @ ''daemon:x'')) =
     Inr [\<lparr>Group_Name = ''wheel'', Group_Id = 10, Group_Users = [''alice'', ''bob'']\<rparr>]"
proof -
  let ?R = "[[''wheel'', ''x'', ''10'', ''alice,bob''], [''daemon'', ''x'']]"
  let ?H = "file_host ''/etc/group'' (''wheel:x:10:alice,bob'' @ [CHR 0x0A] @ ''daemon:x'')"
  have wf: "well_formed_rows ?R" by (simp add: well_formed_rows_def)
  have f: "files ?H ''/etc/group'' = Some (join (CHR 0x0A) (map (join (CHR '':'')) ?R))"
    by (simp add: file_host_def host_with_def)
  have p: "ParseInt ''10'' 10 64 = Some 10" by (simp add: evals)
  from getGroups_recovers_fields[OF f wf] obtain g where
    "getGroups ?H = Inr [g]" "Group_Name g = ''wheel''" "Group_Id g = 10" "Group_Users g = [''alice'', ''bob'']"
    by (auto simp: p list_all2_Cons1)
  then show ?thesis by simp
qed

section \<open>The result contract\<close>

lemma contract_Inl: "contract (Inl e)"
  by (simp add: contract_def)

lemma contract_success: "contract (Inr (0, []))"
  by (simp add: contract_def)

lemma contract_failure: "msg \<noteq> [] \<Longrightarrow> contract (Inr (1, msg))"
  by (simp add: contract_def)

lemma contract_genericError: "contract (Inr (genericError label wanted found))"
  by (simp add: contract_def genericError_def)

lemma contract_and_then: "(\<And>x. contract (f x)) \<Longrightarrow> contract (and_then m f)"
  by (cases m) (simp_all add: and_then_def contract_Inl)

lemmas contract_intros = contract_Inl contract_success contract_failure contract_genericError
  contract_and_then

lemma contract_groupNotFound: "contract (groupNotFound h name)"
  unfolding groupNotFound_def by (intro contract_intros)

lemma contract_GroupExists: "contract (GroupExists h ps)"
  unfolding GroupExists_def
  by (intro contract_and_then) (simp add: contract_success contract_groupNotFound)

lemma contract_UserInGroup_loop: "contract (UserInGroup_loop h user grp groups)"
  by (induction groups) (simp_all add: contract_intros contract_groupNotFound)

lemma contract_UserInGroup: "contract (UserInGroup h ps)"
  unfolding UserInGroup_def by (intro contract_and_then contract_UserInGroup_loop)

lemma contract_GroupId_loop: "contract (GroupId_loop h name ident groups)"
  by (induction groups) (simp_all add: contract_intros contract_groupNotFound)

lemma contract_GroupId: "contract (GroupId h ps)"
  unfolding GroupId_def by (intro contract_and_then contract_GroupId_loop)

lemma contract_genericUserField: "contract (genericUserField h u fieldName v)"
  unfolding genericUserField_def
  by (intro contract_and_then) (simp add: contract_def split: option.splits)

lemma contract_UserExists: "contract (UserExists h ps)"
  unfolding UserExists_def
  by (intro contract_and_then) (simp add: contract_def split: option.splits)

lemma contract_UserHas:
  "contract (UserHasUID h ps)" "contract (UserHasGID h ps)" "contract (UserHasUsername h ps)"
  "contract (UserHasName h ps)" "contract (UserHasHomeDir h ps)"
  unfolding UserHasUID_def UserHasGID_def UserHasUsername_def UserHasName_def UserHasHomeDir_def
  by (intro contract_and_then contract_genericUserField)+

lemma contract_DockerImage: "contract (DockerImage h ps)"
  unfolding DockerImage_def
  by (intro contract_and_then) (simp add: contract_success contract_genericError)

lemma contract_DockerRunning: "contract (DockerRunning h ps)"
  unfolding DockerRunning_def
  by (intro contract_and_then) (simp add: contract_success contract_genericError)

lemma contract_Port: "contract (Port h ps)"
  unfolding Port_def
  by (intro contract_and_then) (simp add: contract_success contract_genericError)

lemma contract_Interface: "contract (Interface h ps)"
  unfolding Interface_def
  by (intro contract_and_then) (simp add: contract_success contract_genericError Let_def)

lemma contract_Up: "contract (Up h ps)"
  unfolding Up_def
  by (intro contract_and_then) (simp add: contract_success contract_genericError Let_def)

lemma contract_getIPWorker: "contract (getIPWorker h name address version)"
  unfolding getIPWorker_def
  by (intro contract_and_then) (simp add: contract_success contract_genericError)

lemma contract_Ip: "contract (Ip4 h ps)" "contract (Ip6 h ps)"
  unfolding Ip4_def Ip6_def by (intro contract_and_then contract_getIPWorker)+

lemma contract_Gateway: "contract (Gateway h ps)"
  unfolding Gateway_def
  by (intro contract_and_then) (simp add: contract_success contract_genericError Let_def)

lemma contract_GatewayInterface: "contract (GatewayInterface h ps)"
  unfolding GatewayInterface_def
  by (intro contract_and_then) (simp add: contract_success contract_genericError)

lemma contract_Host: "contract (Host h ps)"
  unfolding Host_def by (intro contract_and_then) (simp add: contract_def)

lemma contract_getConnectionWorker: "contract (getConnectionWorker h hst protocol timeoutstr)"
proof (cases "ParseDuration h timeoutstr")
  case None
  then show ?thesis by (simp add: getConnectionWorker_def contract_Inl)
next
  case (Some dur)
  have "contract (and_then (canConnect h hst protocol dur) (\<lambda>ok.
          if ok then Inr (0, [])
          else Inr (1, ''Could not connect over '' @ protocol @ '' to host: '' @ hst)))"
    by (intro contract_and_then) (simp add: contract_def)
  then show ?thesis using Some by (simp add: getConnectionWorker_def)
qed

lemma contract_connections:
  "contract (TCP h ps)" "contract (UDP h ps)" "contract (tcpTimeout h ps)" "contract (udpTimeout h ps)"
  unfolding TCP_def UDP_def tcpTimeout_def udpTimeout_def
  by (intro contract_and_then contract_getConnectionWorker)+

lemma contract_routingTableMatch: "contract (routingTableMatch h col str)"
  unfolding routingTableMatch_def
  by (intro contract_and_then) (simp add: contract_success contract_genericError)

lemma contract_RoutingTable:
  "contract (RoutingTableDestination h ps)" "contract (RoutingTableInterface h ps)"
  "contract (RoutingTableGateway h ps)"
  unfolding RoutingTableDestination_def RoutingTableInterface_def RoutingTableGateway_def
  by (intro contract_and_then contract_routingTableMatch)+

lemmas contract_checks = contract_GroupExists contract_UserInGroup contract_GroupId
  contract_UserExists contract_UserHas contract_DockerImage contract_DockerRunning contract_Port
  contract_Interface contract_Up contract_Ip contract_Gateway contract_GatewayInterface
  contract_Host contract_connections contract_RoutingTable

text \<open>
  Claim C2. Whenever one of the domain checks returns, on any host and any
  parameters, its exit code is 0 or 1, exit code 0 comes with the empty message
  and exit code 1 with a message that is not empty.
\<close>

theorem check_result_invariant:
  assumes "check \<in> set domain_checks"
    and "check h parameters = Inr (exitCode, exitMessage)"
  shows "(exitCode = 0 \<or> exitCode = 1) \<and> (exitCode = 0 \<longrightarrow> exitMessage = []) \<and>
         (exitCode = 1 \<longrightarrow> exitMessage \<noteq> [])"
proof -
  have "contract (check h parameters)"
    using assms(1) unfolding domain_checks_def by (auto simp: contract_checks)
  then show ?thesis using assms(2) by (auto simp: contract_def)
qed

theorem check_result_invariant_witness:
  "Host \<in> set domain_checks \<and>
   Host (file_host [] []) [''example.org''] = Inr (1, ''Host cannot be resolved: example.org'') \<and>
   ((1::int) = 0 \<or> (1::int) = 1) \<and> ''Host cannot be resolved: example.org'' \<noteq> []"
proof -
  have m: "Host \<in> set domain_checks" by (simp add: domain_checks_def)
  have r: "Host (file_host [] []) [''example.org''] = Inr (1, ''Host cannot be resolved: example.org'')"
    by (simp add: Host_def evals)
  from check_result_invariant[OF m r] show ?thesis using m r by simp
qed

section \<open>\<open>UserInGroup\<close> and the parameter list\<close>

lemmas group_evals = getGroups_def groupNotFound_def GroupExists_def UserInGroup_def GroupId_def

lemma UserInGroup_ignores_rest: "UserInGroup h (user # rest) = UserInGroup h [user]"
  by (simp add: UserInGroup_def index_def and_then_def)

text \<open>
  Claim C1. With \<open>sudo:x:27:alice\<close> as \<open>/etc/group\<close>, \<open>UserInGroup\<close> takes the group
  name from position 0 as well: for \<open>["alice", "sudo"]\<close> it looks for a group named
  \<open>alice\<close> and reports that the group was not found, with exit code 1, instead of
  returning \<open>(0, "")\<close>; for \<open>["bob", "sudo"]\<close> it reports that the group \<open>bob\<close> was
  not found and lists the group names, not the members \<open>["alice"]\<close> of \<open>sudo\<close>.
\<close>

theorem UserInGroup_group_from_position_0:
  "UserInGroup (file_host ''/etc/group'' ''sudo:x:27:alice'') [''alice'', ''sudo''] =
     Inr (genericError ''Group not found'' ''alice'' [''sudo'']) \<and>
   UserInGroup (file_host ''/etc/group'' ''sudo:x:27:alice'') [''alice'', ''sudo''] \<noteq> Inr (0, []) \<and>
   UserInGroup (file_host ''/etc/group'' ''sudo:x:27:alice'') [''bob'', ''sudo''] =
     Inr (genericError ''Group not found'' ''bob'' [''sudo'']) \<and>
   UserInGroup (file_host ''/etc/group'' ''sudo:x:27:alice'') [''bob'', ''sudo''] \<noteq>
     Inr (genericError ''User not found in group'' ''bob'' [''alice''])"
  by (simp add: group_evals evals)

text \<open>
  A parameter list shorter than the positions a check indexes stops the run with
  an index out of range, before anything is read from the host.
\<close>

lemma short_parameters_panic:
  "GroupExists h [] = Inl IndexOutOfRange"
  "UserInGroup h [] = Inl IndexOutOfRange"
  "length ps < 2 \<Longrightarrow> GroupId h ps = Inl IndexOutOfRange"
  "UserExists h [] = Inl IndexOutOfRange"
  "length ps < 2 \<Longrightarrow> UserHasUID h ps = Inl IndexOutOfRange"
  "length ps < 2 \<Longrightarrow> UserHasGID h ps = Inl IndexOutOfRange"
  "length ps < 2 \<Longrightarrow> UserHasUsername h ps = Inl IndexOutOfRange"
  "length ps < 2 \<Longrightarrow> UserHasName h ps = Inl IndexOutOfRange"
  "length ps < 2 \<Longrightarrow> UserHasHomeDir h ps = Inl IndexOutOfRange"
  "DockerImage h [] = Inl IndexOutOfRange"
  "DockerRunning h [] = Inl IndexOutOfRange"
  "Port h [] = Inl IndexOutOfRange"
  "Interface h [] = Inl IndexOutOfRange"
  "Up h [] = Inl IndexOutOfRange"
  "length ps < 2 \<Longrightarrow> Ip4 h ps = Inl IndexOutOfRange"
  "length ps < 2 \<Longrightarrow> Ip6 h ps = Inl IndexOutOfRange"
  "Gateway h [] = Inl IndexOutOfRange"
  "GatewayInterface h [] = Inl IndexOutOfRange"
  "Host h [] = Inl IndexOutOfRange"
  "TCP h [] = Inl IndexOutOfRange"
  "UDP h [] = Inl IndexOutOfRange"
  "RoutingTableDestination h [] = Inl IndexOutOfRange"
  "RoutingTableInterface h [] = Inl IndexOutOfRange"
  "RoutingTableGateway h [] = Inl IndexOutOfRange"
  by (auto simp: GroupExists_def UserInGroup_def GroupId_def UserExists_def UserHasUID_def
      UserHasGID_def UserHasUsername_def UserHasName_def UserHasHomeDir_def DockerImage_def
      DockerRunning_def Port_def Interface_def Up_def Ip4_def Ip6_def Gateway_def
      GatewayInterface_def Host_def TCP_def UDP_def RoutingTableDestination_def
      RoutingTableInterface_def RoutingTableGateway_def index_def and_then_def)

text \<open>
  Claim C10. \<open>UserInGroup\<close> is documented as taking a user and a group, yet with
  the single parameter \<open>["alice"]\<close> it does not stop at an index out of range: it
  never indexes position 1, and returns a result.
\<close>

theorem UserInGroup_one_parameter_returns:
  "UserInGroup (file_host ''/etc/group'' ''sudo:x:27:alice'') [''alice''] =
     Inr (genericError ''Group not found'' ''alice'' [''sudo'']) \<and>
   UserInGroup (file_host ''/etc/group'' ''sudo:x:27:alice'') [''alice''] \<noteq> Inl IndexOutOfRange"
  by (simp add: group_evals evals)

section \<open>Fatal stops\<close>

lemma getGroups_loop_fatal:
  assumes "line \<in> set lines" "3 < length line" "ParseInt (line ! 2) 10 64 = None"
  shows "\<exists>name. getGroups_loop lines = Inl (Fatal (''Could not parse ID for group: '' @ name))"
proof -
  have "\<exists>row\<in>set lines. 3 < length row \<and> ParseInt (row ! 2) 10 64 = None"
    using assms by blast
  from getGroups_loop_bad[OF this] show ?thesis by blast
qed

lemma and_then_Inl: "and_then (Inl e) f = Inl e"
  by (simp add: and_then_def)

lemma group_checks_stop:
  assumes "getGroups h = Inl e"
  shows "\<exists>e'. GroupExists h ps = Inl e'" "\<exists>e'. UserInGroup h ps = Inl e'"
    "\<exists>e'. GroupId h ps = Inl e'"
  using assms
  by (auto simp: GroupExists_def UserInGroup_def GroupId_def and_then_def index_def
      split: sum.splits)

text \<open>
  Claim C3. An unsupported protocol in \<open>canConnect\<close>, an IP version other than 4
  and 6 in \<open>getInterfaceIPs\<close>, a timeout that is not a duration in
  \<open>getConnectionWorker\<close> and a group line of more than three fields whose id is not
  an integer in \<open>getGroups\<close> each stop the run with \<open>log.Fatal\<close>; the workers and
  checks that call them then stop as well and return no \<open>(1, message)\<close> result.
\<close>

theorem environment_failures_are_fatal:
  "(protocol \<noteq> ''TCP'' \<and> protocol \<noteq> ''UDP'' \<longrightarrow>
      canConnect h hst protocol timeout = Inl (Fatal (''Unsupported protocol: '' @ protocol)) \<and>
      (\<exists>msg. getConnectionWorker h hst protocol timeoutstr = Inl (Fatal msg))) \<and>
   (version \<noteq> 4 \<and> version \<noteq> 6 \<longrightarrow>
      getInterfaceIPs h name version =
        Inl (Fatal (''Misconfigured JSON: Unsupported IP version: '' @ Sprint version)) \<and>
      getIPWorker h name address version =
        Inl (Fatal (''Misconfigured JSON: Unsupported IP version: '' @ Sprint version))) \<and>
   (ParseDuration h timeoutstr = None \<longrightarrow>
      getConnectionWorker h hst protocol timeoutstr =
        Inl (Fatal (''Configuration error: Could not parse duration: '' @ timeoutstr))) \<and>
   (files h ''/etc/group'' = Some data \<and> line \<in> set (separateString (CHR 0x0A) (CHR '':'') data) \<and>
    3 < length line \<and> ParseInt (line ! 2) 10 64 = None \<longrightarrow>
      (\<exists>name. getGroups h = Inl (Fatal (''Could not parse ID for group: '' @ name))) \<and>
      (\<exists>e. GroupExists h parameters = Inl e) \<and> (\<exists>e. UserInGroup h parameters = Inl e) \<and>
      (\<exists>e. GroupId h parameters = Inl e))"
proof (intro conjI impI)
  assume p: "protocol \<noteq> ''TCP'' \<and> protocol \<noteq> ''UDP''"
  then show c: "canConnect h hst protocol timeout = Inl (Fatal (''Unsupported protocol: '' @ protocol))"
    by (simp add: canConnect_def)
  from p have "\<And>dur. canConnect h hst protocol dur = Inl (Fatal (''Unsupported protocol: '' @ protocol))"
    by (simp add: canConnect_def)
  then show "\<exists>msg. getConnectionWorker h hst protocol timeoutstr = Inl (Fatal msg)"
    by (cases "ParseDuration h timeoutstr") (simp_all add: getConnectionWorker_def and_then_def)
next
  assume v: "version \<noteq> 4 \<and> version \<noteq> 6"
  then show i: "getInterfaceIPs h name version =
      Inl (Fatal (''Misconfigured JSON: Unsupported IP version: '' @ Sprint version))"
    by (simp add: getInterfaceIPs_def)
  then show "getIPWorker h name address version =
      Inl (Fatal (''Misconfigured JSON: Unsupported IP version: '' @ Sprint version))"
    by (simp add: getIPWorker_def and_then_def)
next
  assume "ParseDuration h timeoutstr = None"
  then show "getConnectionWorker h hst protocol timeoutstr =
      Inl (Fatal (''Configuration error: Could not parse duration: '' @ timeoutstr))"
    by (simp add: getConnectionWorker_def)
next
  assume a: "files h ''/etc/group'' = Some data \<and>
    line \<in> set (separateString (CHR 0x0A) (CHR '':'') data) \<and>
    3 < length line \<and> ParseInt (line ! 2) 10 64 = None"
  then have g: "getGroups h = getGroups_loop (separateString (CHR 0x0A) (CHR '':'') data)"
    by (simp add: getGroups_def fileToString_def and_then_def)
  from a getGroups_loop_fatal obtain name where
    n: "getGroups h = Inl (Fatal (''Could not parse ID for group: '' @ name))"
    unfolding g by blast
  then show "\<exists>name. getGroups h = Inl (Fatal (''Could not parse ID for group: '' @ name))"
    by blast
  from group_checks_stop[OF n] show "\<exists>e. GroupExists h parameters = Inl e"
    "\<exists>e. UserInGroup h parameters = Inl e" "\<exists>e. GroupId h parameters = Inl e"
    by blast+
qed

theorem environment_failures_are_fatal_witness:
  "canConnect (file_host ''/etc/group'' ''root:x:zero:'') ''localhost:80'' ''SCTP'' 0 =
     Inl (Fatal ''Unsupported protocol: SCTP'') \<and>
   getInterfaceIPs (file_host ''/etc/group'' ''root:x:zero:'') ''eth0'' 5 =
     Inl (Fatal ''Misconfigured JSON: Unsupported IP version: 5'') \<and>
   getConnectionWorker (file_host ''/etc/group'' ''root:x:zero:'') ''localhost:80'' ''SCTP'' ''soon'' =
     Inl (Fatal ''Configuration error: Could not parse duration: soon'') \<and>
   (\<exists>name. getGroups (file_host ''/etc/group'' ''root:x:zero:'') =
     Inl (Fatal (''Could not parse ID for group: '' @ name))) \<and>
   (\<exists>e. GroupExists (file_host ''/etc/group'' ''root:x:zero:'') [''root''] = Inl e)"
proof -
  let ?h = "file_host ''/etc/group'' ''root:x:zero:''"
  have a: "''SCTP'' \<noteq> ''TCP'' \<and> ''SCTP'' \<noteq> ''UDP''" by simp
  have b: "(5::int) \<noteq> 4 \<and> (5::int) \<noteq> 6" by simp
  have c: "ParseDuration ?h ''soon'' = None" by (simp add: evals)
  have d: "files ?h ''/etc/group'' = Some ''root:x:zero:'' \<and>
      [''root'', ''x'', ''zero'', ''''] \<in> set (separateString (CHR 0x0A) (CHR '':'') ''root:x:zero:'') \<and>
      3 < length [''root'', ''x'', ''zero'', ''''] \<and>
      ParseInt ([''root'', ''x'', ''zero'', ''''] ! 2) 10 64 = None"
    by (simp add: evals)
  have s: "Sprint 5 = ''5''" by (simp add: evals)
  show ?thesis
    using environment_failures_are_fatal[of "''SCTP''" ?h "''localhost:80''" 0 "''soon''" 5
        "''eth0''" "''''" "''root:x:zero:''" "[''root'', ''x'', ''zero'', '''']" "[''root'']"]
      a b c d s
    by simp
qed

section \<open>\<open>DockerRunning\<close> when the command fails\<close>

text \<open>
  Claim C8. When \<open>docker ps -a\<close> fails, \<open>DockerRunning\<close> returns no result: with a
  parameter to look for, it stops with the permission message when the combined
  output contains \<open>permission denied\<close> and with the error message otherwise (and
  without a parameter it has stopped before the command is run).
\<close>

theorem DockerRunning_command_failure_is_fatal:
  assumes "Err (commands h [''docker'', ''ps'', ''-a'']) = Some e"
  shows "(\<exists>f. DockerRunning h parameters = Inl f) \<and>
         (parameters \<noteq> [] \<longrightarrow>
            DockerRunning h parameters =
              Inl (Fatal (if Contains (Out (commands h [''docker'', ''ps'', ''-a''])) ''permission denied''
                          then ''Permission denied when running: docker ps -a''
                          else ''Error while running `docker ps -a`'' @ [CHR 0x0A, CHR 0x09] @ e)))"
  using assms
  by (cases parameters)
     (simp_all add: DockerRunning_def getRunningContainers_def index_def and_then_def Let_def)

theorem DockerRunning_command_failure_is_fatal_witness:
  "DockerRunning (command_host [''docker'', ''ps'', ''-a'']
       \<lparr>Out = ''Got permission denied while trying to connect'', Err = Some ''exit status 1''\<rparr>)
     [''web''] = Inl (Fatal ''Permission denied when running: docker ps -a'') \<and>
   DockerRunning (command_host [''docker'', ''ps'', ''-a'']
       \<lparr>Out = ''Cannot connect to the Docker daemon'', Err = Some ''exit status 1''\<rparr>)
     [''web''] = Inl (Fatal (''Error while running `docker ps -a`'' @ [CHR 0x0A, CHR 0x09] @ ''exit status 1''))"
proof -
  let ?h1 = "command_host [''docker'', ''ps'', ''-a'']
       \<lparr>Out = ''Got permission denied while trying to connect'', Err = Some ''exit status 1''\<rparr>"
  let ?h2 = "command_host [''docker'', ''ps'', ''-a'']
       \<lparr>Out = ''Cannot connect to the Docker daemon'', Err = Some ''exit status 1''\<rparr>"
  have e1: "Err (commands ?h1 [''docker'', ''ps'', ''-a'']) = Some ''exit status 1''"
    by (simp add: evals)
  have e2: "Err (commands ?h2 [''docker'', ''ps'', ''-a'']) = Some ''exit status 1''"
    by (simp add: evals)
  have c1: "Contains (Out (commands ?h1 [''docker'', ''ps'', ''-a''])) ''permission denied''"
    by (simp add: evals)
  have c2: "\<not> Contains (Out (commands ?h2 [''docker'', ''ps'', ''-a''])) ''permission denied''"
    by (simp add: evals)
  show ?thesis
    using DockerRunning_command_failure_is_fatal[OF e1, of "[''web'']"]
      DockerRunning_command_failure_is_fatal[OF e2, of "[''web'']"] c1 c2
    by simp
qed

section \<open>The gateway's interface\<close>

lemma getGatewayInterface_loop_same:
  "getGatewayInterface_loop (pre @ ips) (length pre) ips =
     Inr (case filter (\<lambda>ip. ip \<noteq> ''0.0.0.0'') ips of [] \<Rightarrow> [] | ip # _ \<Rightarrow> ip)"
proof (induction ips arbitrary: pre)
  case Nil
  then show ?case by simp
next
  case (Cons ip ips)
  have "getGatewayInterface_loop ((pre @ [ip]) @ ips) (length (pre @ [ip])) ips =
     Inr (case filter (\<lambda>ip. ip \<noteq> ''0.0.0.0'') ips of [] \<Rightarrow> [] | ip # _ \<Rightarrow> ip)"
    by (rule Cons.IH)
  then show ?case
    by (cases "ip = ''0.0.0.0''") (simp_all add: index_def nth_append)
qed

lemma getGatewayInterface_first:
  assumes "routingTableColumn h 1 = Inr ips"
  shows "getGatewayInterface h =
     Inr (case filter (\<lambda>ip. ip \<noteq> ''0.0.0.0'') ips of [] \<Rightarrow> [] | ip # _ \<Rightarrow> ip)"
  using assms getGatewayInterface_loop_same[of "[]" ips]
  by (simp add: getGatewayInterface_def and_then_def)

text \<open>
  Claim C9. \<open>GatewayInterface\<close> takes both its gateway addresses and its
  "interface names" from column 1 of the routing table. It returns \<open>(0, "")\<close>
  exactly when its first parameter is the first entry of that column other than
  \<open>0.0.0.0\<close> (the empty string when there is none), reports that entry otherwise,
  and gives the same outcome on any two hosts whose column 1 is the same, whatever
  their interface column holds.
\<close>

theorem GatewayInterface_reads_column_1:
  "(routingTableColumn h 1 = Inr ips \<longrightarrow>
      (GatewayInterface h (name # rest) = Inr (0, []) \<longleftrightarrow>
         name = (case filter (\<lambda>ip. ip \<noteq> ''0.0.0.0'') ips of [] \<Rightarrow> [] | ip # _ \<Rightarrow> ip)) \<and>
      (GatewayInterface h (name # rest) \<noteq> Inr (0, []) \<longrightarrow>
         GatewayInterface h (name # rest) =
           Inr (genericError ''Default gateway does not operate on interface'' name
                  [case filter (\<lambda>ip. ip \<noteq> ''0.0.0.0'') ips of [] \<Rightarrow> [] | ip # _ \<Rightarrow> ip]))) \<and>
   (routingTableColumn h 1 = routingTableColumn h' 1 \<longrightarrow>
      GatewayInterface h parameters = GatewayInterface h' parameters)"
proof (intro conjI impI)
  assume a: "routingTableColumn h 1 = Inr ips"
  note g = getGatewayInterface_first[OF a]
  show "GatewayInterface h (name # rest) = Inr (0, []) \<longleftrightarrow>
         name = (case filter (\<lambda>ip. ip \<noteq> ''0.0.0.0'') ips of [] \<Rightarrow> [] | ip # _ \<Rightarrow> ip)"
    by (simp add: GatewayInterface_def g index_def and_then_def genericError_def)
  assume "GatewayInterface h (name # rest) \<noteq> Inr (0, [])"
  then show "GatewayInterface h (name # rest) =
           Inr (genericError ''Default gateway does not operate on interface'' name
                  [case filter (\<lambda>ip. ip \<noteq> ''0.0.0.0'') ips of [] \<Rightarrow> [] | ip # _ \<Rightarrow> ip])"
    by (simp add: GatewayInterface_def g index_def and_then_def split: if_splits)
next
  assume "routingTableColumn h 1 = routingTableColumn h' 1"
  then show "GatewayInterface h parameters = GatewayInterface h' parameters"
    by (simp add: GatewayInterface_def getGatewayInterface_def)
qed

theorem GatewayInterface_reads_column_1_witness:
  "routingTableColumn
     (command_host [''route'', ''-n'']
        \<lparr>Out = ''Kernel IP routing table'' @ [CHR 0x0A] @
               ''Destination Gateway Genmask Flags Metric Ref Use Iface'' @ [CHR 0x0A] @
               ''0.0.0.0 192.168.1.1 0.0.0.0 UG 0 0 0 eth0'' @ [CHR 0x0A] @
               ''192.168.1.0 0.0.0.0 255.255.255.0 U 0 0 0 eth0'',
         Err = None\<rparr>) 1 = Inr [''192.168.1.1'', ''0.0.0.0''] \<and>
   GatewayInterface
     (command_host [''route'', ''-n'']
        \<lparr>Out = ''Kernel IP routing table'' @ [CHR 0x0A] @
               ''Destination Gateway Genmask Flags Metric Ref Use Iface'' @ [CHR 0x0A] @
               ''0.0.0.0 192.168.1.1 0.0.0.0 UG 0 0 0 eth0'' @ [CHR 0x0A] @
               ''192.168.1.0 0.0.0.0 255.255.255.0 U 0 0 0 eth0'',
         Err = None\<rparr>) [''192.168.1.1''] = Inr (0, []) \<and>
   GatewayInterface
     (command_host [''route'', ''-n'']
        \<lparr>Out = ''Kernel IP routing table'' @ [CHR 0x0A] @
               ''Destination Gateway Genmask Flags Metric Ref Use Iface'' @ [CHR 0x0A] @
               ''0.0.0.0 192.168.1.1 0.0.0.0 UG 0 0 0 eth0'' @ [CHR 0x0A] @
               ''192.168.1.0 0.0.0.0 255.255.255.0 U 0 0 0 eth0'',
         Err = None\<rparr>) [''eth0''] =
     Inr (genericError ''Default gateway does not operate on interface'' ''eth0'' [''192.168.1.1'']) \<and>
   GatewayInterface
     (command_host [''route'', ''-n'']
        \<lparr>Out = ''Kernel IP routing table'' @ [CHR 0x0A] @
               ''Destination Gateway Genmask Flags Metric Ref Use Iface'' @ [CHR 0x0A] @
               ''0.0.0.0 192.168.1.1 0.0.0.0 UG 0 0 0 eth0'' @ [CHR 0x0A] @
               ''192.168.1.0 0.0.0.0 255.255.255.0 U 0 0 0 eth0'',
         Err = None\<rparr>) [''eth0''] =
   GatewayInterface
     (command_host [''route'', ''-n'']
        \<lparr>Out = ''Kernel IP routing table'' @ [CHR 0x0A] @
               ''Destination Gateway Genmask Flags Metric Ref Use Iface'' @ [CHR 0x0A] @
               ''0.0.0.0 192.168.1.1 0.0.0.0 UG 0 0 0 wlan0'' @ [CHR 0x0A] @
               ''192.168.1.0 0.0.0.0 255.255.255.0 U 0 0 0 wlan0'',
         Err = None\<rparr>) [''eth0'']"
proof -
  let ?h = "command_host [''route'', ''-n'']
        \<lparr>Out = ''Kernel IP routing table'' @ [CHR 0x0A] @
               ''Destination Gateway Genmask Flags Metric Ref Use Iface'' @ [CHR 0x0A] @
               ''0.0.0.0 192.168.1.1 0.0.0.0 UG 0 0 0 eth0'' @ [CHR 0x0A] @
               ''192.168.1.0 0.0.0.0 255.255.255.0 U 0 0 0 eth0'',
         Err = None\<rparr>"
  let ?h' = "command_host [''route'', ''-n'']
        \<lparr>Out = ''Kernel IP routing table'' @ [CHR 0x0A] @
               ''Destination Gateway Genmask Flags Metric Ref Use Iface'' @ [CHR 0x0A] @
               ''0.0.0.0 192.168.1.1 0.0.0.0 UG 0 0 0 wlan0'' @ [CHR 0x0A] @
               ''192.168.1.0 0.0.0.0 255.255.255.0 U 0 0 0 wlan0'',
         Err = None\<rparr>"
  have c: "routingTableColumn ?h 1 = Inr [''192.168.1.1'', ''0.0.0.0'']"
    by (simp add: routingTableColumn_def evals)
  have c': "routingTableColumn ?h' 1 = Inr [''192.168.1.1'', ''0.0.0.0'']"
    by (simp add: routingTableColumn_def evals)
  have e: "routingTableColumn ?h 1 = routingTableColumn ?h' 1"
    using c c' by simp
  show ?thesis
    using GatewayInterface_reads_column_1[of ?h "[''192.168.1.1'', ''0.0.0.0'']" "''192.168.1.1''" "[]" ?h' "[''eth0'']"]
      GatewayInterface_reads_column_1[of ?h "[''192.168.1.1'', ''0.0.0.0'']" "''eth0''" "[]" ?h' "[''eth0'']"]
      c e
    by simp
qed

section \<open>Open ports\<close>

lemma portRe_FindString_shape:
  "portRe_FindString s \<noteq> [] \<Longrightarrow>
   length (tl (portRe_FindString s)) = 4 \<and> list_all isHexUpper (tl (portRe_FindString s))"
  by (induction s) (auto split: if_splits)

lemma portRe_FindString_no_colon: "CHR '':'' \<notin> set address \<Longrightarrow> portRe_FindString address = []"
  by (induction address) auto

lemma portRe_FindString_first_colon:
  "CHR '':'' \<notin> set ip \<Longrightarrow> length port = 4 \<Longrightarrow> list_all isHexUpper port \<Longrightarrow>
   portRe_FindString (ip @ CHR '':'' # port @ rest) = CHR '':'' # port"
  by (induction ip) auto

lemma getHexPorts_loop_eq:
  "getHexPorts_loop addresses =
     map (\<lambda>address. tl (portRe_FindString address))
       (filter (\<lambda>address. portRe_FindString address \<noteq> []) addresses)"
  by (induction addresses) auto

lemma digitVal_hex_all:
  "\<forall>c\<in>set ''0123456789ABCDEF''. digitVal c = Some (hex_digit c) \<and> hex_digit c < 16"
  by (simp add: digitVal_def hex_digit_def)

lemma digitVal_hex: "isHexUpper c \<Longrightarrow> digitVal c = Some (hex_digit c) \<and> hex_digit c < 16"
  using digitVal_hex_all unfolding isHexUpper_def by blast

lemma ParseUint_loop_hex:
  "list_all isHexUpper cs \<Longrightarrow> (n + 1) * 16 ^ length cs \<le> 2 ^ 64 \<Longrightarrow>
   ParseUint_loop 16 (2 ^ 64 - 1) n cs = Some (foldl (\<lambda>n c. n * 16 + hex_digit c) n cs) \<and>
   foldl (\<lambda>n c. n * 16 + hex_digit c) n cs < (n + 1) * 16 ^ length cs"
proof (induction cs arbitrary: n)
  case Nil
  then show ?case by simp
next
  case (Cons c cs)
  let ?d = "hex_digit c"
  from Cons.prems(1) have d: "?d < 16" "digitVal c = Some ?d"
    using digitVal_hex by auto
  have le: "(n * 16 + ?d + 1) * 16 ^ length cs \<le> (n + 1) * 16 ^ length (c # cs)"
  proof -
    have "n * 16 + ?d + 1 \<le> (n + 1) * 16" using d(1) by simp
    then have "(n * 16 + ?d + 1) * 16 ^ length cs \<le> ((n + 1) * 16) * 16 ^ length cs"
      by (rule mult_le_mono1)
    then show ?thesis by (simp only: length_Cons power_Suc mult.assoc)
  qed
  then have fit: "(n * 16 + ?d + 1) * 16 ^ length cs \<le> 2 ^ 64"
    using Cons.prems(2) by linarith
  have "(n * 16 + ?d + 1) * 1 \<le> (n * 16 + ?d + 1) * 16 ^ length cs"
    by (rule mult_le_mono2) simp
  then have "n * 16 + ?d + 1 \<le> 2 ^ 64" using fit by simp
  then have small: "\<not> 2 ^ 64 - 1 < n * 16 + ?d" by simp
  from Cons.prems(1) have "list_all isHexUpper cs" by simp
  from Cons.IH[OF this fit] have
    m: "ParseUint_loop 16 (2 ^ 64 - 1) (n * 16 + ?d) cs =
          Some (foldl (\<lambda>n c. n * 16 + hex_digit c) (n * 16 + ?d) cs)"
       "foldl (\<lambda>n c. n * 16 + hex_digit c) (n * 16 + ?d) cs < (n * 16 + ?d + 1) * 16 ^ length cs"
    by auto
  have "ParseUint_loop 16 (2 ^ 64 - 1) n (c # cs) =
      Some (foldl (\<lambda>n c. n * 16 + hex_digit c) n (c # cs))"
    using d small m(1) by simp
  moreover have "foldl (\<lambda>n c. n * 16 + hex_digit c) n (c # cs) < (n + 1) * 16 ^ length (c # cs)"
    using m(2) le by simp
  ultimately show ?case by blast
qed

lemma strHexToDecimal_port:
  assumes "length port = 4" "list_all isHexUpper port"
  shows "strHexToDecimal port = Inr (int (hex_value port)) \<and> hex_value port < 65536"
proof -
  from ParseUint_loop_hex[OF assms(2), of 0] assms(1) have
    m: "ParseUint_loop 16 (2 ^ 64 - 1) 0 port = Some (hex_value port)" "hex_value port < 65536"
    by (auto simp: hex_value_def)
  from assms obtain c cs where p: "port = c # cs" "isHexUpper c"
    by (cases port) auto
  then have sign: "c \<noteq> CHR ''+''" "c \<noteq> CHR ''-''" by (auto simp: isHexUpper_def)
  have "ParseInt port 16 64 = Some (int (hex_value port))"
    using m sign p(1) by (simp add: ParseInt_def ParseUint_def)
  then show ?thesis using m(2) by (simp add: strHexToDecimal_def)
qed

lemma getOpenPorts_loop_eq:
  "\<forall>port\<in>set ports. length port = 4 \<and> list_all isHexUpper port \<Longrightarrow>
   getOpenPorts_loop ports = Inr (map (\<lambda>port. int (hex_value port)) ports)"
  by (induction ports) (simp_all add: strHexToDecimal_port and_then_def)

lemma getOpenPorts_of_file:
  assumes "files h ''/proc/net/tcp'' = Some data"
  shows "getHexPorts h = Inr (map (\<lambda>address. tl (portRe_FindString address)) (port_addresses data))"
    and "getOpenPorts h =
      Inr (map (\<lambda>address. int (hex_value (tl (portRe_FindString address)))) (port_addresses data))"
proof -
  show hp: "getHexPorts h = Inr (map (\<lambda>address. tl (portRe_FindString address)) (port_addresses data))"
    using assms by (simp add: getHexPorts_def fileToString_def and_then_def getHexPorts_loop_eq)
  have "\<forall>port\<in>set (map (\<lambda>address. tl (portRe_FindString address)) (port_addresses data)).
      length port = 4 \<and> list_all isHexUpper port"
    using portRe_FindString_shape by auto
  from getOpenPorts_loop_eq[OF this] show "getOpenPorts h =
      Inr (map (\<lambda>address. int (hex_value (tl (portRe_FindString address)))) (port_addresses data))"
    using hp by (simp add: getOpenPorts_def and_then_def comp_def)
qed

lemma Port_of_open:
  assumes "getOpenPorts h = Inr opn"
  shows "Port h [p0] =
     (case ParseInt p0 10 64 of
        None \<Rightarrow> Inl (Fatal (''Could not parse int: '' @ p0))
      | Some port \<Rightarrow>
          if port \<in> set opn then Inr (0, [])
          else Inr (genericError ''Port not open'' (Sprint port) (map Sprint opn)))"
  using assms
  by (simp add: Port_def index_def and_then_def parseMyInt_def list_ex_iff split: option.splits)

text \<open>
  Claim C5. When \<open>/proc/net/tcp\<close> is readable, the hex ports are exactly the four
  characters of \<open>0-9A-F\<close> after the first matching colon of each entry of the local
  address column that has such a match, in the order of the file, and the open
  ports are exactly their hexadecimal values, each below 65536: no entry stops the
  run. \<open>Port\<close> stops on a parameter that is not an integer; for a parameter that
  is, it returns \<open>(0, "")\<close> when the integer is one of the open ports and otherwise
  the diagnostic that lists the open ports in decimal. With \<open>0100007F:1F90\<close> in the
  column, 8080 is an open port and \<open>Port(["8080"])\<close> returns \<open>(0, "")\<close>.
\<close>

theorem Port_hex_to_decimal:
  assumes "files h ''/proc/net/tcp'' = Some data"
  shows "getHexPorts h =
           Inr (map (\<lambda>address. tl (portRe_FindString address)) (port_addresses data)) \<and>
         (\<forall>ip port rest. CHR '':'' \<notin> set ip \<and> length port = 4 \<and> list_all isHexUpper port \<longrightarrow>
            portRe_FindString (ip @ CHR '':'' # port @ rest) = CHR '':'' # port) \<and>
         (\<forall>address. CHR '':'' \<notin> set address \<longrightarrow> portRe_FindString address = []) \<and>
         getOpenPorts h =
           Inr (map (\<lambda>address. int (hex_value (tl (portRe_FindString address))))
                  (port_addresses data)) \<and>
         (\<forall>address\<in>set (port_addresses data). hex_value (tl (portRe_FindString address)) < 65536) \<and>
         (\<forall>p0. Port h [p0] =
            (case ParseInt p0 10 64 of
               None \<Rightarrow> Inl (Fatal (''Could not parse int: '' @ p0))
             | Some port \<Rightarrow>
                 if port \<in> set (map (\<lambda>address. int (hex_value (tl (portRe_FindString address))))
                                  (port_addresses data))
                 then Inr (0, [])
                 else Inr (genericError ''Port not open'' (Sprint port)
                             (map Sprint
                                (map (\<lambda>address. int (hex_value (tl (portRe_FindString address))))
                                   (port_addresses data)))))) \<and>
         (''0100007F:1F90'' \<in> set (local_addresses data) \<longrightarrow>
            8080 \<in> set (map (\<lambda>address. int (hex_value (tl (portRe_FindString address))))
                          (port_addresses data)) \<and>
            Port h [''8080''] = Inr (0, []))"
proof -
  let ?opn = "map (\<lambda>address. int (hex_value (tl (portRe_FindString address)))) (port_addresses data)"
  note gp = getOpenPorts_of_file[OF assms]
  have c2: "\<forall>ip port rest. CHR '':'' \<notin> set ip \<and> length port = 4 \<and> list_all isHexUpper port \<longrightarrow>
            portRe_FindString (ip @ CHR '':'' # port @ rest) = CHR '':'' # port"
    by (simp add: portRe_FindString_first_colon)
  have c3: "\<forall>address. CHR '':'' \<notin> set address \<longrightarrow> portRe_FindString address = []"
    by (simp add: portRe_FindString_no_colon)
  have c5: "\<forall>address\<in>set (port_addresses data). hex_value (tl (portRe_FindString address)) < 65536"
  proof
    fix address assume "address \<in> set (port_addresses data)"
    then have "portRe_FindString address \<noteq> []" by simp
    from portRe_FindString_shape[OF this]
    have "length (tl (portRe_FindString address)) = 4"
      "list_all isHexUpper (tl (portRe_FindString address))" by simp_all
    from strHexToDecimal_port[OF this]
    show "hex_value (tl (portRe_FindString address)) < 65536" by simp
  qed
  have c6: "\<forall>p0. Port h [p0] =
            (case ParseInt p0 10 64 of
               None \<Rightarrow> Inl (Fatal (''Could not parse int: '' @ p0))
             | Some port \<Rightarrow>
                 if port \<in> set ?opn then Inr (0, [])
                 else Inr (genericError ''Port not open'' (Sprint port) (map Sprint ?opn)))"
    by (intro allI) (rule Port_of_open[OF gp(2)])
  have c7: "''0100007F:1F90'' \<in> set (local_addresses data) \<longrightarrow>
      8080 \<in> set ?opn \<and> Port h [''8080''] = Inr (0, [])"
  proof
    assume a: "''0100007F:1F90'' \<in> set (local_addresses data)"
    have f: "portRe_FindString ''0100007F:1F90'' = '':1F90''"
      by (simp add: isHexUpper_def)
    have v: "hex_value ''1F90'' = 8080"
      by (simp add: hex_value_def hex_digit_def)
    have "''0100007F:1F90'' \<in> set (port_addresses data)" using a f by simp
    then have "(\<lambda>address. int (hex_value (tl (portRe_FindString address)))) ''0100007F:1F90''
        \<in> (\<lambda>address. int (hex_value (tl (portRe_FindString address)))) ` set (port_addresses data)"
      by (rule imageI)
    then have m: "8080 \<in> set ?opn" unfolding set_map f using v by simp
    have p: "ParseInt ''8080'' 10 64 = Some 8080"
      by (simp add: ParseInt_def ParseUint_def digitVal_def)
    have "Port h [''8080''] = Inr (0, [])"
      using c6[rule_format, of "''8080''"] m unfolding p by (simp only: option.case if_True)
    then show "8080 \<in> set ?opn \<and> Port h [''8080''] = Inr (0, [])" using m by blast
  qed
  show ?thesis
    by (intro conjI) (rule gp(1) c2 c3 gp(2) c5 c6 c7)+
qed

theorem Port_hex_to_decimal_witness:
  "getHexPorts (file_host ''/proc/net/tcp''
      (''sl local_address rem_address st'' @ [CHR 0x0A] @
       ''0: 0100007F:1F90 00000000:0000 0A'' @ [CHR 0x0A] @
       ''1: 00000000:0016 00000000:0000 0A'')) = Inr [''1F90'', ''0016''] \<and>
   getOpenPorts (file_host ''/proc/net/tcp''
      (''sl local_address rem_address st'' @ [CHR 0x0A] @
       ''0: 0100007F:1F90 00000000:0000 0A'' @ [CHR 0x0A] @
       ''1: 00000000:0016 00000000:0000 0A'')) = Inr [8080, 22] \<and>
   Port (file_host ''/proc/net/tcp''
      (''sl local_address rem_address st'' @ [CHR 0x0A] @
       ''0: 0100007F:1F90 00000000:0000 0A'' @ [CHR 0x0A] @
       ''1: 00000000:0016 00000000:0000 0A'')) [''8080''] = Inr (0, []) \<and>
   Port (file_host ''/proc/net/tcp''
      (''sl local_address rem_address st'' @ [CHR 0x0A] @
       ''0: 0100007F:1F90 00000000:0000 0A'' @ [CHR 0x0A] @
       ''1: 00000000:0016 00000000:0000 0A'')) [''9999''] =
     Inr (genericError ''Port not open'' ''9999'' [''8080'', ''22'']) \<and>
   Port (file_host ''/proc/net/tcp''
      (''sl local_address rem_address st'' @ [CHR 0x0A] @
       ''0: 0100007F:1F90 00000000:0000 0A'' @ [CHR 0x0A] @
       ''1: 00000000:0016 00000000:0000 0A'')) [''http''] =
     Inl (Fatal ''Could not parse int: http'')"
proof -
  let ?data = "''sl local_address rem_address st'' @ [CHR 0x0A] @
       ''0: 0100007F:1F90 00000000:0000 0A'' @ [CHR 0x0A] @
       ''1: 00000000:0016 00000000:0000 0A''"
  let ?h = "file_host ''/proc/net/tcp'' ?data"
  have f: "files ?h ''/proc/net/tcp'' = Some ?data" by (simp add: evals)
  have la: "local_addresses ?data = [''0100007F:1F90'', ''00000000:0016'']"
    by (simp add: evals)
  have pa: "port_addresses ?data = [''0100007F:1F90'', ''00000000:0016'']"
    unfolding la by (simp add: isHexUpper_def)
  have m1: "map (\<lambda>address. tl (portRe_FindString address)) [''0100007F:1F90'', ''00000000:0016''] =
      [''1F90'', ''0016'']"
    by (simp add: isHexUpper_def)
  have m2: "map (\<lambda>address. int (hex_value (tl (portRe_FindString address))))
      [''0100007F:1F90'', ''00000000:0016''] = [8080, 22]"
    by (simp add: isHexUpper_def hex_value_def hex_digit_def)
  have p: "ParseInt ''8080'' 10 64 = Some 8080" "ParseInt ''9999'' 10 64 = Some 9999"
    "ParseInt ''http'' 10 64 = None"
    by (simp_all add: evals)
  have s: "map Sprint [8080, 22] = [''8080'', ''22'']" "Sprint 9999 = ''9999''"
    by (simp_all add: evals)
  note T = Port_hex_to_decimal[OF f]
  have c1: "getHexPorts ?h = Inr [''1F90'', ''0016'']"
    using T[THEN conjunct1] unfolding pa m1 .
  have c2: "getOpenPorts ?h = Inr [8080, 22]"
    using T[THEN conjunct2, THEN conjunct2, THEN conjunct2, THEN conjunct1]
    unfolding pa m2 .
  note P = T[THEN conjunct2, THEN conjunct2, THEN conjunct2, THEN conjunct2, THEN conjunct2,
      THEN conjunct1, THEN spec, unfolded pa m2 s(1)]
  have c3: "Port ?h [''8080''] = Inr (0, [])"
    using P[of "''8080''"] unfolding p by simp
  have c4: "Port ?h [''9999''] = Inr (genericError ''Port not open'' ''9999'' [''8080'', ''22''])"
    using P[of "''9999''"] unfolding p by (simp add: s(2))
  have c5: "Port ?h [''http''] = Inl (Fatal ''Could not parse int: http'')"
    using P[of "''http''"] unfolding p by simp
  show ?thesis using c1 c2 c3 c4 c5 by (intro conjI)
qed

section \<open>Docker images\<close>

lemma Contains_prefix: "Contains (sub @ c) sub"
proof (cases "sub @ c")
  case Nil
  then show ?thesis by simp
next
  case (Cons x xs)
  have "take (length sub) (sub @ c) = sub" by simp
  then have "take (length sub) (x # xs) = sub" unfolding Cons .
  then have "Contains (x # xs) sub" by simp
  then show ?thesis unfolding Cons .
qed

lemma Contains_infix: "Contains (a @ sub @ c) sub"
  by (induction a) (simp_all add: Contains_prefix)

lemma comma_joined_member: "x \<in> set xs \<Longrightarrow> \<exists>a c. comma_joined xs = a @ x @ c"
proof (induction xs rule: comma_joined.induct)
  case 1
  then show ?case by simp
next
  case (2 y)
  then have "comma_joined [y] = [] @ x @ []" by simp
  then show ?case by blast
next
  case (3 y z zs)
  show ?case
  proof (cases "x = y")
    case True
    then have "comma_joined (y # z # zs) = [] @ x @ ('', '' @ comma_joined (z # zs))" by simp
    then show ?thesis by blast
  next
    case False
    then have "x \<in> set (z # zs)" using 3 by simp
    then obtain a c where "comma_joined (z # zs) = a @ x @ c" using 3 by blast
    then have "comma_joined (y # z # zs) = (y @ '', '' @ a) @ x @ c" by simp
    then show ?thesis by blast
  qed
qed

lemma genericError_mentions:
  "fst (genericError label wanted found) = 1"
  "Contains (snd (genericError label wanted found)) wanted"
  "x \<in> set found \<Longrightarrow> Contains (snd (genericError label wanted found)) x"
proof -
  show "fst (genericError label wanted found) = 1" by (simp add: genericError_def)
  have "snd (genericError label wanted found) =
      (label @ [CHR 0x0A, CHR 0x09] @ ''Wanted: '') @ wanted @
      ([CHR 0x0A, CHR 0x09] @ ''Found: '' @ render_found found)"
    by (simp add: genericError_def)
  then show "Contains (snd (genericError label wanted found)) wanted"
    by (simp only: Contains_infix)
  assume x: "x \<in> set found"
  then have "render_found found = comma_joined found" by (auto simp: render_found_def)
  with comma_joined_member[OF x] obtain a c where "render_found found = a @ x @ c" by auto
  then have "snd (genericError label wanted found) =
      (label @ [CHR 0x0A, CHR 0x09] @ ''Wanted: '' @ wanted @ [CHR 0x0A, CHR 0x09] @ ''Found: '' @ a) @ x @ c"
    by (simp add: genericError_def)
  then show "Contains (snd (genericError label wanted found)) x"
    by (simp only: Contains_infix)
qed

text \<open>
  Claim C6. When \<open>docker images\<close> succeeds, \<open>DockerImage\<close> returns \<open>(0, "")\<close> exactly when
  its first parameter is in column 0 of the output with the header row dropped;
  when the name is not there it returns exit code 1 with a message that contains
  the name looked for and every image name found.
\<close>

theorem DockerImage_iff_in_column_0:
  assumes "Err (commands h [''docker'', ''images'']) = None"
  shows "(DockerImage h (name # rest) = Inr (0, []) \<longleftrightarrow>
            name \<in> set (column (stringToSlice (Out (commands h [''docker'', ''images'']))) 0 True)) \<and>
         (name \<notin> set (column (stringToSlice (Out (commands h [''docker'', ''images'']))) 0 True) \<longrightarrow>
            (\<exists>msg. DockerImage h (name # rest) = Inr (1, msg) \<and> Contains msg name \<and>
               (\<forall>image\<in>set (column (stringToSlice (Out (commands h [''docker'', ''images'']))) 0 True).
                  Contains msg image)))"
proof -
  let ?images = "column (stringToSlice (Out (commands h [''docker'', ''images'']))) 0 True"
  have d: "DockerImage h (name # rest) =
      (if name \<in> set ?images then Inr (0, [])
       else Inr (genericError ''Docker image was not found'' name ?images))"
    using assms
    by (simp add: DockerImage_def commandColumnNoHeader_def commandOutput_def
        getColumnNoHeader_def index_def and_then_def strIn_def)
  have ne: "Inr (genericError ''Docker image was not found'' name ?images) \<noteq> (Inr (0, []) :: check_result result)"
    by (simp add: genericError_def)
  have iff: "DockerImage h (name # rest) = Inr (0, []) \<longleftrightarrow> name \<in> set ?images"
    using d ne by simp
  have "\<exists>msg. DockerImage h (name # rest) = Inr (1, msg) \<and> Contains msg name \<and>
               (\<forall>image\<in>set ?images. Contains msg image)" if "name \<notin> set ?images"
  proof -
    let ?e = "genericError ''Docker image was not found'' name ?images"
    have "DockerImage h (name # rest) = Inr (1, snd ?e)"
      using d that genericError_mentions(1)[of "''Docker image was not found''" name ?images]
      by (metis prod.collapse)
    moreover have "Contains (snd ?e) name" by (rule genericError_mentions(2))
    moreover have "\<forall>image\<in>set ?images. Contains (snd ?e) image"
      using genericError_mentions(3) by blast
    ultimately show ?thesis by blast
  qed
  then show ?thesis using iff by blast
qed

theorem DockerImage_iff_in_column_0_witness:
  "DockerImage
     (command_host [''docker'', ''images'']
        \<lparr>Out = ''REPOSITORY   TAG       IMAGE ID       CREATED        SIZE'' @ [CHR 0x0A] @
               ''ubuntu       latest    0123abcd       2 weeks ago    77.8MB'' @ [CHR 0x0A] @
               ''nginx        1.25      4567cdef       3 weeks ago    187MB'',
         Err = None\<rparr>) [''ubuntu''] = Inr (0, []) \<and>
   (\<exists>msg. DockerImage
     (command_host [''docker'', ''images'']
        \<lparr>Out = ''REPOSITORY   TAG       IMAGE ID       CREATED        SIZE'' @ [CHR 0x0A] @
               ''ubuntu       latest    0123abcd       2 weeks ago    77.8MB'' @ [CHR 0x0A] @
               ''nginx        1.25      4567cdef       3 weeks ago    187MB'',
         Err = None\<rparr>) [''nonexistent-image''] = Inr (1, msg) \<and>
      Contains msg ''nonexistent-image'' \<and> Contains msg ''ubuntu'' \<and> Contains msg ''nginx'')"
proof -
  let ?h = "command_host [''docker'', ''images'']
        \<lparr>Out = ''REPOSITORY   TAG       IMAGE ID       CREATED        SIZE'' @ [CHR 0x0A] @
               ''ubuntu       latest    0123abcd       2 weeks ago    77.8MB'' @ [CHR 0x0A] @
               ''nginx        1.25      4567cdef       3 weeks ago    187MB'',
         Err = None\<rparr>"
  have e: "Err (commands ?h [''docker'', ''images'']) = None" by (simp add: evals)
  have c: "column (stringToSlice (Out (commands ?h [''docker'', ''images'']))) 0 True =
      [''ubuntu'', ''nginx'']"
    by (simp add: evals)
  show ?thesis
    using DockerImage_iff_in_column_0[OF e, of "''ubuntu''" "[]"]
      DockerImage_iff_in_column_0[OF e, of "''nonexistent-image''" "[]"]
    unfolding c by simp
qed

section \<open>The run-of-whitespace policy and \<open>DockerRunning\<close>\<close>

lemma takeWhile_run:
  "list_all P sep \<Longrightarrow> rest = [] \<or> \<not> P (hd rest) \<Longrightarrow> takeWhile P (sep @ rest) = sep"
  by (cases rest) (auto simp: list_all_iff takeWhile_append2)

lemma dropWhile_run:
  "list_all P sep \<Longrightarrow> rest = [] \<or> \<not> P (hd rest) \<Longrightarrow> dropWhile P (sep @ rest) = rest"
  by (cases rest) (auto simp: list_all_iff dropWhile_append2)

lemma split_runs_wide:
  assumes "wide sep" "rest = [] \<or> \<not> is_space (hd rest)"
  shows "split_runs 2 (sep @ rest) = [] # split_runs 2 rest"
proof -
  from assms(1) obtain s sep' where s: "sep = s # sep'" "is_space s" "list_all is_space sep'"
    by (cases sep) (auto simp: wide_def)
  have t: "takeWhile is_space (s # sep' @ rest) = sep"
    using takeWhile_run[of is_space sep rest] assms s(1) by (simp add: wide_def)
  have d: "dropWhile is_space (sep' @ rest) = rest"
    using dropWhile_run[OF s(3) assms(2)] .
  have "2 \<le> length sep" using assms(1) by (simp add: wide_def)
  then show ?thesis using s(1,2) t d by simp
qed

lemma split_runs_field_then_wide:
  "no_boundary g \<Longrightarrow> wide sep \<Longrightarrow> rest = [] \<or> \<not> is_space (hd rest) \<Longrightarrow>
   split_runs 2 (g @ sep @ rest) = g # split_runs 2 rest"
proof (induction g rule: no_boundary.induct)
  case 1
  then show ?case by (simp add: split_runs_wide)
next
  case (2 c)
  then show ?case by (simp add: split_runs_wide)
next
  case (3 c d cs)
  then have ih: "split_runs 2 ((d # cs) @ sep @ rest) = (d # cs) # split_runs 2 rest" by simp
  show ?case
  proof (cases "is_space c")
    case False
    then show ?thesis using ih by simp
  next
    case True
    then have "\<not> is_space d" using 3 by simp
    then show ?thesis using True ih by simp
  qed
qed

lemma split_runs_field: "no_boundary g \<Longrightarrow> split_runs 2 g = [g]"
proof (induction g rule: no_boundary.induct)
  case 1
  then show ?case by simp
next
  case (2 c)
  then show ?case by simp
next
  case (3 c d cs)
  then have ih: "split_runs 2 (d # cs) = [d # cs]" by simp
  show ?case
  proof (cases "is_space c")
    case False
    then show ?thesis using ih by simp
  next
    case True
    then have "\<not> is_space d" using 3 by simp
    then show ?thesis using True ih by simp
  qed
qed

lemma weave_starts: "\<exists>t. weave (g # fs) seps = g @ t"
  by (cases "(g # fs, seps)" rule: weave.cases) auto

lemma split_runs_weave:
  "cols \<noteq> [] \<Longrightarrow> \<forall>f\<in>set cols. single_spaced f \<Longrightarrow> length cols \<le> length seps + 1 \<Longrightarrow>
   \<forall>sep\<in>set seps. wide sep \<Longrightarrow> split_runs 2 (weave cols seps) = cols"
proof (induction cols seps rule: weave.induct)
  case (1 seps)
  then show ?case by simp
next
  case (2 f seps)
  then show ?case by (simp add: single_spaced_def split_runs_field)
next
  case (3 f g fs)
  then show ?case by simp
next
  case (4 f g fs sep seps)
  obtain t where t: "weave (g # fs) seps = g @ t" using weave_starts by blast
  have g: "g \<noteq> []" "\<not> is_space (hd g)" using 4(3) by (simp_all add: single_spaced_def)
  then have start: "weave (g # fs) seps = [] \<or> \<not> is_space (hd (weave (g # fs) seps))"
    unfolding t by simp
  have ih: "split_runs 2 (weave (g # fs) seps) = g # fs" using 4 by simp
  have "no_boundary f" "wide sep" using 4(3,5) by (simp_all add: single_spaced_def)
  from split_runs_field_then_wide[OF this start] show ?case using ih by simp
qed

lemma getRunningContainers_loop_set:
  "x \<in> set (getRunningContainers_loop names i statuses) \<longleftrightarrow>
   (\<exists>j<length statuses. i + j < length names \<and> names ! (i + j) = x \<and> Contains (statuses ! j) ''Up'')"
proof (induction statuses arbitrary: i)
  case Nil
  then show ?case by simp
next
  case (Cons status statuses)
  let ?P = "\<lambda>j. i + j < length names \<and> names ! (i + j) = x \<and> Contains ((status # statuses) ! j) ''Up''"
  have split: "(\<exists>j<length (status # statuses). ?P j) \<longleftrightarrow> ?P 0 \<or> (\<exists>j<length statuses. ?P (Suc j))"
  proof
    assume "\<exists>j<length (status # statuses). ?P j"
    then obtain j where j: "j < length (status # statuses)" "?P j" by blast
    show "?P 0 \<or> (\<exists>j<length statuses. ?P (Suc j))"
    proof (cases j)
      case 0
      then show ?thesis using j by simp
    next
      case (Suc k)
      then have "k < length statuses" "?P (Suc k)" using j by simp_all
      then show ?thesis by blast
    qed
  next
    assume "?P 0 \<or> (\<exists>j<length statuses. ?P (Suc j))"
    then show "\<exists>j<length (status # statuses). ?P j"
    proof
      assume "?P 0"
      then show ?thesis by (intro exI[of _ 0]) simp
    next
      assume "\<exists>j<length statuses. ?P (Suc j)"
      then obtain k where "k < length statuses" "?P (Suc k)" by blast
      then show ?thesis by (intro exI[of _ "Suc k"]) simp
    qed
  qed
  have tail: "x \<in> set (getRunningContainers_loop names (Suc i) statuses) \<longleftrightarrow>
      (\<exists>j<length statuses. ?P (Suc j))"
    using Cons.IH[of "Suc i"] by simp
  have "x \<in> set (getRunningContainers_loop names i (status # statuses)) \<longleftrightarrow>
      ?P 0 \<or> x \<in> set (getRunningContainers_loop names (Suc i) statuses)"
    by auto
  then show ?case unfolding split tail .
qed

lemma DockerRunning_of_rows:
  assumes "Err (commands h [''docker'', ''ps'', ''-a'']) = None"
  shows "DockerRunning h (name # rest) =
     (if name \<in> set (getRunningContainers_loop (getColumnNoHeader 1 (docker_ps_rows h)) 0
                        (getColumnNoHeader 4 (docker_ps_rows h)))
      then Inr (0, [])
      else Inr (genericError ''Docker container not runnning'' name
                  (getRunningContainers_loop (getColumnNoHeader 1 (docker_ps_rows h)) 0
                        (getColumnNoHeader 4 (docker_ps_rows h)))))"
proof (cases "docker_ps_rows h = []")
  case True
  then show ?thesis using assms
    by (simp add: DockerRunning_def getRunningContainers_def index_def and_then_def strIn_def
        getColumnNoHeader_def column_def)
next
  case False
  then have "\<not> length (docker_ps_rows h) < 1" by (cases "docker_ps_rows h") simp_all
  then show ?thesis using assms
    by (simp add: DockerRunning_def getRunningContainers_def index_def and_then_def strIn_def
        Let_def)
qed

lemma paired_rows:
  "(\<exists>i. i < length (map f rows) \<and> i < length (map g rows) \<and> map f rows ! i = name \<and>
        P (map g rows ! i)) \<longleftrightarrow>
   (\<exists>row\<in>set rows. f row = name \<and> P (g row))"
proof
  assume "\<exists>i. i < length (map f rows) \<and> i < length (map g rows) \<and> map f rows ! i = name \<and>
        P (map g rows ! i)"
  then obtain i where i: "i < length rows" "map f rows ! i = name" "P (map g rows ! i)" by auto
  then have "rows ! i \<in> set rows" "f (rows ! i) = name" "P (g (rows ! i))" by simp_all
  then show "\<exists>row\<in>set rows. f row = name \<and> P (g row)" by blast
next
  assume "\<exists>row\<in>set rows. f row = name \<and> P (g row)"
  then obtain row where "row \<in> set rows" "f row = name" "P (g row)" by blast
  then obtain i where "i < length rows" "rows ! i = row" "f row = name" "P (g row)"
    by (auto simp: in_set_conv_nth)
  then have "i < length (map f rows) \<and> i < length (map g rows) \<and> map f rows ! i = name \<and>
        P (map g rows ! i)" by simp
  then show "\<exists>i. i < length (map f rows) \<and> i < length (map g rows) \<and> map f rows ! i = name \<and>
        P (map g rows ! i)" by blast
qed

text \<open>
  Under the run-of-whitespace policy a text without a newline, written as
  single-spaced fields with separators of two or more whitespace characters, is
  one row of exactly those fields: a single space inside a field starts no column.
\<close>

lemma stringToSliceMultispace_weave:
  assumes "cols \<noteq> []" "\<forall>f\<in>set cols. single_spaced f" "length cols \<le> length seps + 1"
    "\<forall>sep\<in>set seps. wide sep" "CHR 0x0A \<notin> set (weave cols seps)"
  shows "stringToSliceMultispace (weave cols seps) = [cols]"
proof -
  from assms(1) obtain g fs where c: "cols = g # fs" by (cases cols) auto
  then have "g \<noteq> []" using assms(2) by (simp add: single_spaced_def)
  moreover obtain t where "weave (g # fs) seps = g @ t" using weave_starts by blast
  ultimately have ne: "weave cols seps \<noteq> []" using c by simp
  have "Split (CHR 0x0A) (weave cols seps) = [weave cols seps]"
    using assms(5) by (simp add: Split_no_delim)
  moreover have "split_runs 2 (weave cols seps) = cols"
    using assms by (intro split_runs_weave) auto
  ultimately show ?thesis
    using ne by (simp add: stringToSliceMultispace_def)
qed

text \<open>
  When \<open>docker ps -a\<close> succeeds, \<open>DockerRunning\<close> returns \<open>(0, "")\<close> exactly when its
  first parameter is the \<open>i\<close>-th entry of the extracted column 1 for some \<open>i\<close> at
  which the \<open>i\<close>-th entry of the extracted column 4 contains \<open>Up\<close>.
\<close>

lemma DockerRunning_by_position:
  assumes "Err (commands h [''docker'', ''ps'', ''-a'']) = None"
  shows "DockerRunning h (name # rest) = Inr (0, []) \<longleftrightarrow>
      (\<exists>i. i < length (getColumnNoHeader 1 (docker_ps_rows h)) \<and>
           i < length (getColumnNoHeader 4 (docker_ps_rows h)) \<and>
           getColumnNoHeader 1 (docker_ps_rows h) ! i = name \<and>
           Contains (getColumnNoHeader 4 (docker_ps_rows h) ! i) ''Up'')"
proof -
  let ?names = "getColumnNoHeader 1 (docker_ps_rows h)"
  let ?statuses = "getColumnNoHeader 4 (docker_ps_rows h)"
  have ne: "Inr (genericError ''Docker container not runnning'' name
      (getRunningContainers_loop ?names 0 ?statuses)) \<noteq> (Inr (0, []) :: check_result result)"
    by (simp add: genericError_def)
  have r: "DockerRunning h (name # rest) = Inr (0, []) \<longleftrightarrow>
      name \<in> set (getRunningContainers_loop ?names 0 ?statuses)"
    using DockerRunning_of_rows[OF assms, of name rest] ne by (simp split: if_splits)
  show ?thesis unfolding r getRunningContainers_loop_set by auto
qed

lemma column_eq_filter:
  "concat (map (\<lambda>row. if i < length row then [row ! i] else []) rows) =
   map (\<lambda>row. row ! i) (filter (\<lambda>row. i < length row) rows)"
  by (induction rows) auto

text \<open>
  When moreover every row after the header that has a column 1 also has a column
  4, the names and the statuses come from the same rows, and the result is
  \<open>(0, "")\<close> exactly when the parameter is the column-1 name of a row after the
  header whose column-4 status contains \<open>Up\<close>.
\<close>

lemma DockerRunning_by_row:
  assumes "Err (commands h [''docker'', ''ps'', ''-a'']) = None"
    and "\<forall>row\<in>set (tl (docker_ps_rows h)). 1 < length row \<longrightarrow> 4 < length row"
  shows "DockerRunning h (name # rest) = Inr (0, []) \<longleftrightarrow>
      (\<exists>row\<in>set (tl (docker_ps_rows h)). 4 < length row \<and> row ! 1 = name \<and>
         Contains (row ! 4) ''Up'')"
proof -
  let ?rows = "filter (\<lambda>row. 4 < length row) (tl (docker_ps_rows h))"
  have "filter (\<lambda>row. 1 < length row) (tl (docker_ps_rows h)) = ?rows"
    using assms(2) by (intro filter_cong) auto
  then have n: "getColumnNoHeader 1 (docker_ps_rows h) = map (\<lambda>row. row ! 1) ?rows"
    by (simp add: getColumnNoHeader_def column_def column_eq_filter)
  have s: "getColumnNoHeader 4 (docker_ps_rows h) = map (\<lambda>row. row ! 4) ?rows"
    by (simp add: getColumnNoHeader_def column_def column_eq_filter)
  have "DockerRunning h (name # rest) = Inr (0, []) \<longleftrightarrow>
      (\<exists>row\<in>set ?rows. row ! 1 = name \<and> Contains (row ! 4) ''Up'')"
    unfolding DockerRunning_by_position[OF assms(1)] n s by (rule paired_rows)
  then show ?thesis by auto
qed

text \<open>
  Claim C7. The tokenizer behaves as claimed: the spec's example row is cut at
  the runs of three spaces only, and \<open>Up 3 hours\<close> and \<open>mycontainer app\<close> stay whole.
  The result of \<open>DockerRunning\<close> does not: on the output below the second line has
  two columns only, so the extracted column 1 is \<open>["config", "web"]\<close> and the
  extracted column 4 is \<open>["Up 2 hours"]\<close>, and the status of \<open>web\<close> is paired with
  the name \<open>config\<close>. \<open>DockerRunning(["web"])\<close> returns exit code 1 although the row
  of \<open>web\<close> has a status that contains \<open>Up\<close>, and \<open>DockerRunning(["config"])\<close>
  returns \<open>(0, "")\<close> although the row of \<open>config\<close> has no status.
\<close>

theorem DockerRunning_short_row_shifts_names:
  "stringToSliceMultispace ''app-1   Up 3 hours   mycontainer app'' =
     [[''app-1'', ''Up 3 hours'', ''mycontainer app'']] \<and>
   docker_ps_rows
     (command_host [''docker'', ''ps'', ''-a'']
        \<lparr>Out = ''ID  NAME  COMMAND  CREATED  STATUS'' @ [CHR 0x0A] @
               ''WARNING: bad  config'' @ [CHR 0x0A] @
               ''a1  web  sleep 100  2 hours ago  Up 2 hours'',
         Err = None\<rparr>) =
     [[''ID'', ''NAME'', ''COMMAND'', ''CREATED'', ''STATUS''],
      [''WARNING: bad'', ''config''],
      [''a1'', ''web'', ''sleep 100'', ''2 hours ago'', ''Up 2 hours'']] \<and>
   Contains ''Up 2 hours'' ''Up'' \<and>
   DockerRunning
     (command_host [''docker'', ''ps'', ''-a'']
        \<lparr>Out = ''ID  NAME  COMMAND  CREATED  STATUS'' @ [CHR 0x0A] @
               ''WARNING: bad  config'' @ [CHR 0x0A] @
               ''a1  web  sleep 100  2 hours ago  Up 2 hours'',
         Err = None\<rparr>) [''web''] =
     Inr (genericError ''Docker container not runnning'' ''web'' [''config'']) \<and>
   DockerRunning
     (command_host [''docker'', ''ps'', ''-a'']
        \<lparr>Out = ''ID  NAME  COMMAND  CREATED  STATUS'' @ [CHR 0x0A] @
               ''WARNING: bad  config'' @ [CHR 0x0A] @
               ''a1  web  sleep 100  2 hours ago  Up 2 hours'',
         Err = None\<rparr>) [''config''] = Inr (0, [])"
  by (simp add: DockerRunning_def getRunningContainers_def Let_def evals)

end
